theory Spec2Isabelle
  imports Complex_Main "HOL-Library.Multiset"
begin

section \<open>Conventions\<close>

text \<open>
  The Python sources compute on IEEE doubles held in pandas and numpy containers. The
  embedding reads every float as the real number it denotes; NaN and the infinities are not
  represented. Where the outcome of a strict comparison depends on the value that the code
  computes (the threshold of \<open>delete_final_point\<close>, the launch-clear height), the rounding
  of every float64 operation is written out with \<open>float64\<close> below; elsewhere the arithmetic
  is exact. A data frame read from a CSV file is the list of its rows, with the default
  integer labels \<open>0, 1, 2, ...\<close> that \<open>read_csv\<close> assigns; a column is a record field.
  Reading and writing the files is the identity on the table.
\<close>

datatype error = ValueError | IndexError | KeyError

section \<open>Float64 arithmetic\<close>

text \<open>
  Rounding of an integer-scaled value to the nearest integer, ties to the even one.
\<close>

definition round_half_even :: "real \<Rightarrow> int" where
  "round_half_even y =
     (let f = \<lfloor>y\<rfloor>
      in if y - of_int f < 1 / 2 then f
         else if 1 / 2 < y - of_int f then f + 1
         else if even f then f else f + 1)"

text \<open>
  The exponent of the unit in the last place of the doubles around \<open>x\<close>: 52 below the
  binary exponent of \<open>x\<close> for a normal number, and \<open>-1074\<close> throughout the subnormal range.
\<close>

definition ulp_exponent :: "real \<Rightarrow> int" where
  "ulp_exponent x = max (\<lfloor>log 2 \<bar>x\<bar>\<rfloor> - 52) (- 1074)"

text \<open>
  The double that IEEE 754 round-to-nearest, ties-to-even, gives for the exact result \<open>x\<close>
  of an operation (or for a decimal literal \<open>x\<close>), for \<open>x\<close> below the overflow threshold.
  The result of a float64 operation of the code is \<open>float64\<close> of its exact result.
\<close>

definition float64 :: "real \<Rightarrow> real" where
  "float64 x =
     (if x = 0 then 0
      else of_int (round_half_even (x / 2 powr of_int (ulp_exponent x)))
             * 2 powr of_int (ulp_exponent x))"

text \<open>A real number that is a double: rounding leaves it as it is.\<close>

definition is_float64 :: "real \<Rightarrow> bool" where
  "is_float64 x \<longleftrightarrow> float64 x = x"

text \<open>\<open>math.pi\<close>, the double \<open>3.141592653589793\<close>.\<close>

definition math_pi :: real where
  "math_pi = 884279719003555 / 2 ^ 48"

section \<open>Wind table: \<open>jsbsim_support/param_generator/wind_table.py\<close>\<close>

text \<open>\<open>np.arange(start, stop, step)\<close>: \<open>ceil((stop - start) / step)\<close> samples from \<open>start\<close>.\<close>

definition np_arange :: "real \<Rightarrow> real \<Rightarrow> real \<Rightarrow> real list" where
  "np_arange start stop step =
     map (\<lambda>i. start + real i * step) [0 ..< nat \<lceil>(stop - start) / step\<rceil>]"

text \<open>\<open>np.linspace(a, b, n)\<close> and \<open>np.logspace(a, b, n)\<close> (base ten).\<close>

definition np_linspace :: "real \<Rightarrow> real \<Rightarrow> nat \<Rightarrow> real list" where
  "np_linspace a b n = map (\<lambda>i. a + real i * ((b - a) / real (n - 1))) [0 ..< n]"

definition np_logspace :: "real \<Rightarrow> real \<Rightarrow> nat \<Rightarrow> real list" where
  "np_logspace a b n = map (\<lambda>x. 10 powr x) (np_linspace a b n)"

text \<open>
  \<open>Series.pow\<close>. On a positive base, the only case the altitude grid produces with a
  positive reference altitude, it is the real power.
\<close>

definition series_pow :: "real list \<Rightarrow> real \<Rightarrow> real list" where
  "series_pow xs a = map (\<lambda>x. x powr a) xs"

definition low_altitudes :: "real list" where
  "low_altitudes = np_arange 0.1 10.1 0.1"

definition medium_altitudes :: "real list" where
  "medium_altitudes = np_logspace 1 3 300"

definition high_altitudes :: "real list" where
  "high_altitudes = np_arange 1000 10001 100"

text \<open>The altitude grid: \<open>sorted(list(set(altitudes_m_list)))\<close>.\<close>

definition altitudes_s :: "real list" where
  "altitudes_s =
     sorted_list_of_set (set (low_altitudes @ medium_altitudes @ high_altitudes))"

text \<open>The conditional expression that fills \<open>wind_directions_list\<close>.\<close>

definition wind_direction :: "real \<Rightarrow> real" where
  "wind_direction ground_wind_dir =
     (if ground_wind_dir > 180 then ground_wind_dir - 180 else ground_wind_dir + 180)"

definition generate_wind_table ::
  "real \<Rightarrow> real \<Rightarrow> real \<Rightarrow> real \<Rightarrow> (real \<times> real \<times> real) list" where
  "generate_wind_table ground_wind_dir ground_wind_speed ref_altitude wind_power_factor =
     (let relative_heights_s = map (\<lambda>h. h / ref_altitude) altitudes_s;
          power_terms_s = series_pow relative_heights_s wind_power_factor;
          power_terms_s' =
            (if altitudes_s \<noteq> [] \<and> hd altitudes_s = 0
             then power_terms_s[0 := (if wind_power_factor > 0 then 0
                                       else if wind_power_factor = 0 then 1 else 1)]
             else power_terms_s);
          wind_speeds_s = map (\<lambda>p. ground_wind_speed * p) power_terms_s';
          wind_directions_list =
            replicate (length altitudes_s) (wind_direction ground_wind_dir)
      in zip altitudes_s (zip wind_speeds_s wind_directions_list))"

text \<open>
  The reciprocal bearing in the words of the specification: the ground direction plus a
  half turn, reduced modulo a full turn.
\<close>

definition spec_reciprocal_bearing :: "real \<Rightarrow> real" where
  "spec_reciprocal_bearing d = (d + 180) - 360 * of_int \<lfloor>(d + 180) / 360\<rfloor>"

section \<open>Per-timestep table: \<open>util/summarize.py\<close>\<close>

text \<open>
  One row of the simulator's CSV output. The record is extensible: the \<open>more\<close> part holds
  every column the functions below do not name.
\<close>

record timestep =
  Time :: real
  Latitude :: real
  Longitude :: real
  Altitude :: real
  Angle_of_Attack :: real
  Angle_of_Sideslip :: real
  True_Velocity :: real
  Ground_Velocity :: real
  X_Acceleration :: real
  Y_Acceleration :: real
  Z_Acceleration :: real
  Dynamic_Pressure :: real
  Thrust :: real
  parachute_deploy_gain :: real

text \<open>
  \<open>Series.max()\<close>: the largest entry; on an empty column pandas returns NaN, against which
  every comparison is false, so the result is \<open>None\<close> here.
\<close>

definition series_max :: "real list \<Rightarrow> real option" where
  "series_max xs = (case xs of [] \<Rightarrow> None | x # ys \<Rightarrow> Some (fold max ys x))"

text \<open>
  \<open>output_df[output_df["Time"] < output_df["Time"].max() - 0.01]\<close>, written back. The
  literal \<open>0.01\<close> is the double nearest to it, and the subtraction is the float64 one.
\<close>

definition delete_final_point :: "'a timestep_scheme list \<Rightarrow> 'a timestep_scheme list" where
  "delete_final_point output_df =
     (case series_max (map Time output_df) of
        None \<Rightarrow> filter (\<lambda>r. False) output_df
      | Some m \<Rightarrow> filter (\<lambda>r. Time r < float64 (m - float64 0.01)) output_df)"

section \<open>Vector geometry: \<open>util/kml_generator.py\<close>\<close>

subsection \<open>Merging two documents\<close>

text \<open>
  The documents are texts in UTF-8. The pattern \<open><Document[^>]*>(.*)</Document>\<close> only
  names ASCII characters, whose bytes never occur inside the encoding of another character,
  so the search is modelled on the bytes.

  \<open>re.search\<close> tries the start positions from the left. At a start position the literal
  \<open><Document\<close> must follow; the greedy class \<open>[^>]*\<close> takes the whole run of characters
  other than \<open>></\<close> (a shorter run is followed by a character of the run, never by \<open>>\<close>), and
  a \<open>>\<close> must follow the run; the greedy group \<open>(.*)\<close>, with \<open>re.DOTALL\<close>, first takes
  the whole rest and gives characters back until \<open></Document>\<close> follows: it ends at the last
  occurrence of the closing tag.
\<close>

definition occurs_at :: "string \<Rightarrow> string \<Rightarrow> nat \<Rightarrow> bool" where
  "occurs_at pat s i = (take (length pat) (drop i s) = pat)"

definition greedy_until :: "string \<Rightarrow> string \<Rightarrow> nat option" where
  "greedy_until pat t = find (occurs_at pat t) (rev [0 ..< Suc (length t)])"

text \<open>The span \<open>(start(1), end(1))\<close> of group 1 for a match that starts at position \<open>i\<close>.\<close>

definition match_document_at :: "string \<Rightarrow> nat \<Rightarrow> (nat \<times> nat) option" where
  "match_document_at s i =
     (if occurs_at ''<Document'' s i then
        (let r = drop (i + 9) s;
             k = length (takeWhile (\<lambda>c. c \<noteq> CHR ''>'') r)
         in if k < length r then
              (let start1 = i + 9 + k + 1
               in case greedy_until ''</Document>'' (drop start1 s) of
                    None \<Rightarrow> None
                  | Some p \<Rightarrow> Some (start1, start1 + p))
            else None)
      else None)"

definition re_search_document :: "string \<Rightarrow> (nat \<times> nat) option" where
  "re_search_document s =
     (case find (\<lambda>i. match_document_at s i \<noteq> None) [0 ..< Suc (length s)] of
        None \<Rightarrow> None
      | Some i \<Rightarrow> match_document_at s i)"

text \<open>
  \<open>merge_kmz_to_kml\<close> on the contents of the two files; the result is the text written
  to \<open>output_path\<close>.
\<close>

definition merge_kmz_to_kml :: "string \<Rightarrow> string \<Rightarrow> string" where
  "merge_kmz_to_kml existing_content kmz_content =
     (case (re_search_document existing_content, re_search_document kmz_content) of
        (Some (s1, e1), Some (s2, e2)) \<Rightarrow>
          (let existing_doc_content = take (e1 - s1) (drop s1 existing_content);
               kmz_doc_content = take (e2 - s2) (drop s2 kmz_content);
               kml_header = take s1 existing_content;
               kml_footer = drop e1 existing_content
           in kml_header @ existing_doc_content @ kmz_doc_content @ kml_footer)
      | _ \<Rightarrow> existing_content)"

subsection \<open>The generator\<close>

type_synonym rgb = "int \<times> int \<times> int"

datatype altitude_mode = clamptoground | relativetoground

datatype icon_style = Icon_color rgb | Icon_hidden

text \<open>
  The features a \<open>simplekml.Kml\<close> object holds, in the order of their creation. A line is
  created without an altitude mode and receives one in the last statement of \<open>add_line\<close>.
  A polygon is always drawn unfilled with an outline.
\<close>

datatype feature =
    Point string "real \<times> real" icon_style
  | LineString string "real list list" rgb int "altitude_mode option"
  | Polygon string "(real \<times> real) list" altitude_mode rgb int

type_synonym kml = "feature list"

definition DEFAULT_LINE_WIDTH :: int where
  "DEFAULT_LINE_WIDTH = 3"

text \<open>Python's \<open>int\<close> on a float: truncation towards zero.\<close>

definition py_int :: "real \<Rightarrow> int" where
  "py_int x = (if 0 \<le> x then \<lfloor>x\<rfloor> else \<lceil>x\<rceil>)"

definition create_color_gradient :: "rgb \<Rightarrow> rgb \<Rightarrow> nat \<Rightarrow> rgb list" where
  "create_color_gradient start_color end_color n =
     (case (start_color, end_color) of
        ((r0, g0, b0), (r1, g1, b1)) \<Rightarrow>
          map (\<lambda>t_i. (py_int ((1 - t_i) * of_int r0 + t_i * of_int r1),
                       py_int ((1 - t_i) * of_int g0 + t_i * of_int g1),
                       py_int ((1 - t_i) * of_int b0 + t_i * of_int b1)))
              (np_linspace 0 1 n))"

definition add_point :: "real \<times> real \<Rightarrow> string \<Rightarrow> rgb option \<Rightarrow> kml \<Rightarrow> kml" where
  "add_point point name rgb k =
     k @ [Point name (fst point, snd point)
            (case rgb of Some c \<Rightarrow> Icon_color c | None \<Rightarrow> Icon_hidden)]"

text \<open>
  \<open>add_line\<close> returns the exception it raises, if any, and the document as it has left
  it: the line is created and styled before \<open>points[0]\<close> is read.
\<close>

definition add_line ::
  "real list list \<Rightarrow> string \<Rightarrow> rgb \<Rightarrow> int \<Rightarrow> kml \<Rightarrow> error option \<times> kml" where
  "add_line points name rgb width k =
     (case points of
        [] \<Rightarrow> (Some IndexError, k @ [LineString name [] rgb width None])
      | p # _ \<Rightarrow>
          (None, k @ [LineString name points rgb width
                        (Some (if length p = 3 then relativetoground else clamptoground))]))"

text \<open>\<open>np.arctan2(dy, dx)\<close> on reals (the sign of a zero is not represented).\<close>

definition np_arctan2 :: "real \<Rightarrow> real \<Rightarrow> real" where
  "np_arctan2 dy dx =
     (if 0 < dx then arctan (dy / dx)
      else if dx < 0 \<and> 0 \<le> dy then arctan (dy / dx) + pi
      else if dx < 0 then arctan (dy / dx) - pi
      else if 0 < dy then pi / 2
      else if dy < 0 then - (pi / 2)
      else 0)"

definition angle_from_center :: "real \<Rightarrow> real \<Rightarrow> real \<times> real \<Rightarrow> real" where
  "angle_from_center center_x center_y point =
     np_arctan2 (snd point - center_y) (fst point - center_x)"

definition generate_groundpoint_polygon ::
  "(real \<times> real) list \<Rightarrow> string \<Rightarrow> rgb \<Rightarrow> int \<Rightarrow> kml \<Rightarrow> kml" where
  "generate_groundpoint_polygon points name rgb width k =
     (let sorted_points =
            (if length points < 3 then points
             else (let center_x = sum_list (map fst points) / real (length points);
                       center_y = sum_list (map snd points) / real (length points)
                   in sort_key (angle_from_center center_x center_y) points))
      in k @ [Polygon name
                (if sorted_points \<noteq> [] then sorted_points @ [hd sorted_points] else [])
                clamptoground rgb width])"

text \<open>One row of a group of run summaries: the columns the generator reads.\<close>

record landed =
  landed_latitude :: real
  landed_longitude :: real

definition group_points :: "'a landed_scheme list \<Rightarrow> (real \<times> real) list" where
  "group_points group_df = map (\<lambda>row. (landed_longitude row, landed_latitude row)) group_df"

text \<open>The body of the loop over the groups, for the group at position \<open>i\<close>.\<close>

definition grouped_step ::
  "bool \<Rightarrow> rgb list \<Rightarrow> nat \<times> string \<times> 'a landed_scheme list \<Rightarrow> kml \<Rightarrow> kml" where
  "grouped_step point_output color_gradient g k =
     (case g of
        (i, group_key, group_df) \<Rightarrow>
          (let points = group_points group_df;
               current_color = (if color_gradient \<noteq> [] then color_gradient ! i
                                else (255, 0, 0));
               k1 = (if point_output \<and> length points \<le> 3
                     then fold (\<lambda>point. add_point point [] (Some current_color)) points k
                     else k)
           in if length points > 3
              then generate_groundpoint_polygon points group_key current_color
                     DEFAULT_LINE_WIDTH k1
              else k1))"

text \<open>
  A grouped data frame is the list of its groups, each with its key as \<open>f"{group_key}"\<close>
  renders it.
\<close>

definition generate_grouped_points_polygons ::
  "(string \<times> 'a landed_scheme list) list \<Rightarrow> bool \<Rightarrow> kml \<Rightarrow> kml" where
  "generate_grouped_points_polygons grouped_df point_output k =
     (let num_groups = length grouped_df;
          color_gradient =
            (if num_groups > 0
             then create_color_gradient (248, 112, 128) (247, 93, 139) num_groups
             else [])
      in fold (grouped_step point_output color_gradient)
           (zip [0 ..< num_groups] grouped_df) k)"

section \<open>Feature extraction and aggregation: \<open>util/summarize.py\<close>\<close>

subsection \<open>Derived columns\<close>

definition VGUST :: real where
  "VGUST = 9.0"

definition np_radians :: "real \<Rightarrow> real" where
  "np_radians x = x * pi / 180"

definition np_degrees :: "real \<Rightarrow> real" where
  "np_degrees x = x * 180 / pi"

text \<open>The table after \<open>calculate_aoa\<close>: three columns are appended to every row.\<close>

record aoa_row = timestep +
  Angle_of_Attack_total :: real
  Angle_of_Attack_gust :: real
  True_Velocity_gust :: real

definition calculate_aoa_row :: "timestep \<Rightarrow> aoa_row" where
  "calculate_aoa_row row =
     (let alpha = np_radians (Angle_of_Attack row);
          beta = np_radians (Angle_of_Sideslip row);
          vtrue = True_Velocity row;
          vgust = VGUST
      in timestep.extend row
           (aoa_row.fields
              (np_degrees (arccos (cos alpha * cos beta)))
              (np_degrees (arccos (cos beta * (vtrue * cos alpha - vgust * sin beta)
                                     / sqrt (vtrue * vtrue + vgust * vgust * cos beta * cos beta))))
              (vtrue + vgust * sin beta)))"

definition calculate_aoa :: "timestep list \<Rightarrow> aoa_row list" where
  "calculate_aoa output_df = map calculate_aoa_row output_df"

text \<open>The table after \<open>calculate_acceleration\<close>, run on the output of \<open>calculate_aoa\<close>.\<close>

record acc_row = aoa_row +
  Acceleration :: real

definition calculate_acceleration :: "aoa_row list \<Rightarrow> acc_row list" where
  "calculate_acceleration output_df =
     map (\<lambda>row. aoa_row.extend row
                  (acc_row.fields
                     (sqrt ((X_Acceleration row)\<^sup>2 + (Y_Acceleration row)\<^sup>2
                            + (Z_Acceleration row)\<^sup>2))))
         output_df"

text \<open>
  The frame \<open>df\<close> of \<open>get_extrema_analysis\<close> once its four columns are added. The renaming
  of the columns to short names is not represented: the fields keep the names of the file.
\<close>

record derived_row = acc_row +
  wind_speed :: real
  temperature :: real
  pressure :: real
  qbar_atan_aoa :: real

definition calculate_temperature :: "real \<Rightarrow> real" where
  "calculate_temperature altitude = 15.0 - 6.5 * (altitude / 1000.0)"

definition calculate_pressure :: "real \<Rightarrow> real" where
  "calculate_pressure altitude =
     1013.25 * ((288.15 - 0.0065 * altitude) / 288.15) powr 5.256"

definition derive_row :: "acc_row \<Rightarrow> derived_row" where
  "derive_row row =
     acc_row.extend row
       (derived_row.fields
          \<bar>True_Velocity row - Ground_Velocity row\<bar>
          (calculate_temperature (Altitude row))
          (calculate_pressure (Altitude row))
          (Dynamic_Pressure row * np_degrees (Angle_of_Attack_gust row)))"

definition derive_columns :: "acc_row list \<Rightarrow> derived_row list" where
  "derive_columns output_df = map derive_row output_df"

subsection \<open>Labelled columns and their extrema\<close>

text \<open>
  A pandas \<open>Series\<close> is the list of its (label, value) pairs. \<open>idxmax\<close> and \<open>idxmin\<close> return
  the label of the first occurrence of the extreme value and raise \<open>ValueError\<close> on an
  empty series.
\<close>

type_synonym series = "(nat \<times> real) list"

definition labelled :: "'r list \<Rightarrow> (nat \<times> 'r) list" where
  "labelled df = zip [0 ..< length df] df"

definition column :: "('r \<Rightarrow> real) \<Rightarrow> (nat \<times> 'r) list \<Rightarrow> series" where
  "column f ldf = map (\<lambda>(i, row). (i, f row)) ldf"

fun idx_best :: "(real \<Rightarrow> real \<Rightarrow> bool) \<Rightarrow> nat \<times> real \<Rightarrow> series \<Rightarrow> nat" where
  "idx_best better best [] = fst best"
| "idx_best better best (x # xs) =
     idx_best better (if better (snd x) (snd best) then x else best) xs"

definition idxmax :: "series \<Rightarrow> error + nat" where
  "idxmax s = (case s of [] \<Rightarrow> Inl ValueError | x # xs \<Rightarrow> Inr (idx_best (>) x xs))"

definition idxmin :: "series \<Rightarrow> error + nat" where
  "idxmin s = (case s of [] \<Rightarrow> Inl ValueError | x # xs \<Rightarrow> Inr (idx_best (<) x xs))"

text \<open>Sequencing of statements that may raise.\<close>

definition bind_err :: "error + 'a \<Rightarrow> ('a \<Rightarrow> error + 'b) \<Rightarrow> error + 'b" where
  "bind_err m f = (case m of Inl e \<Rightarrow> Inl e | Inr x \<Rightarrow> f x)"

subsection \<open>Launch geometry, site registry, distances\<close>

text \<open>The entries \<open>("launch", "elevation")\<close>, \<open>("launch", "launcher_length")\<close> and
  \<open>("launch", "pitch")\<close> of the run's information row.\<close>

record launch =
  elevation :: real
  launcher_length :: real
  pitch :: real

text \<open>
  \<open>elevation + launcher_length * math.sin(pitch * math.pi / 180)\<close> as the code evaluates it:
  every product, quotient and sum is rounded to a double. \<open>math.sin\<close> is the sine of the C
  library on doubles, a parameter.
\<close>

definition launch_clear_height :: "(real \<Rightarrow> real) \<Rightarrow> launch \<Rightarrow> real" where
  "launch_clear_height math_sin l =
     float64 (elevation l
              + float64 (launcher_length l
                         * math_sin (float64 (float64 (pitch l * math_pi) / 180))))"

text \<open>
  \<open>LAUNCH_SITES\<close> is defined in \<open>trajecsim.landing_range.launch_sites\<close>, which is not part of
  the sources at hand: the registry is a parameter, a dictionary from the site key to the
  \<open>landing_range\<close> method of the evaluator the registered class constructs. The geodesic
  distance in metres of \<open>geopy\<close> is a parameter as well.
\<close>

type_synonym sites = "string \<rightharpoonup> (real \<Rightarrow> real \<Rightarrow> real)"

type_synonym geodesic = "real \<times> real \<Rightarrow> real \<times> real \<Rightarrow> real"

record pos_diff =
  distance_m :: real
  lat_diff_m :: real
  lon_diff_m :: real
  lat_diff_degrees :: real
  lon_diff_degrees :: real

definition calculate_with_geopy :: "geodesic \<Rightarrow> real \<Rightarrow> real \<Rightarrow> real \<Rightarrow> real \<Rightarrow> pos_diff" where
  "calculate_with_geopy geo lat1 lon1 lat2 lon2 =
     (let distance = geo (lat1, lon1) (lat2, lon2);
          lat_distance = geo (lat1, lon1) (lat2, lon1);
          lat_distance' = (if lat2 < lat1 then - lat_distance else lat_distance);
          lon_distance = geo (lat1, lon1) (lat1, lon2);
          lon_distance' = (if lon2 < lon1 then - lon_distance else lon_distance)
      in \<lparr>distance_m = distance, lat_diff_m = lat_distance', lon_diff_m = lon_distance',
          lat_diff_degrees = lat2 - lat1, lon_diff_degrees = lon2 - lon1\<rparr>)"

subsection \<open>Extrema of one run\<close>

text \<open>A cell of a result table, and a result table as the list of its rows.\<close>

datatype cell = Str string | Num real

type_synonym table = "(string \<times> cell) list list"

definition extrema_row ::
  "geodesic \<Rightarrow> (real \<Rightarrow> real \<Rightarrow> real) \<Rightarrow> derived_row list \<Rightarrow> real \<Rightarrow> real
     \<Rightarrow> string \<times> nat \<times> real \<times> string \<Rightarrow> (string \<times> cell) list" where
  "extrema_row geo landing_range df initial_point_lat initial_point_long extremum =
     (case extremum of
        (extrema_name, idx, val, metric) \<Rightarrow>
          (let row = df ! idx;
               pd = calculate_with_geopy geo initial_point_lat initial_point_long
                      (Latitude row) (Longitude row)
           in [(''extrema_type'', Str extrema_name),
               (''extrema_value'', Num val),
               (''time'', Num (Time row)),
               (''thrust'', Num (Thrust row)),
               (''acceleration'', Num (Acceleration row)),
               (''dynamic_pressure'', Num (Dynamic_Pressure row)),
               (''angle_of_attack_gust'', Num (Angle_of_Attack_gust row)),
               (''angle_of_attack_total'', Num (Angle_of_Attack_total row)),
               (''true_velocity'', Num (True_Velocity row)),
               (''altitude'', Num (Altitude row)),
               (''temperature'', Num (temperature row)),
               (''pressure'', Num (pressure row)),
               (''latitude'', Num (Latitude row)),
               (''longitude'', Num (Longitude row)),
               (''lat_m'', Num (lat_diff_m pd)),
               (''long_m'', Num (lon_diff_m pd)),
               (''range_m'', Num (distance_m pd)),
               (''landing_range'', Num (landing_range (Latitude row) (Longitude row)))]))"

text \<open>
  \<open>get_extrema_analysis\<close>. The arguments are the registry, the geodesic distance, the sine
  of the C library, the launch geometry of the run's information row, the table read from
  its \<open>raw_output_file\<close> and the site key.
\<close>

definition get_extrema_analysis ::
  "sites \<Rightarrow> geodesic \<Rightarrow> (real \<Rightarrow> real) \<Rightarrow> launch \<Rightarrow> acc_row list \<Rightarrow> string
     \<Rightarrow> error + table" where
  "get_extrema_analysis LAUNCH_SITES geo math_sin output_info_df output_df
     landing_range_script =
     (case LAUNCH_SITES landing_range_script of
        None \<Rightarrow> Inr [ [(''landing_range'', Num 0)] ]
      | Some landing_range \<Rightarrow>
          (let df = derive_columns output_df;
               ldf = labelled df;
               h = launch_clear_height math_sin output_info_df
           in
           bind_err (idxmin (column Time ldf)) (\<lambda>initial_point_idx.
           bind_err (idxmin (column Time (filter (\<lambda>(i, row). Altitude row > h) ldf)))
             (\<lambda>launch_clear_idx.
           bind_err (idxmax (column True_Velocity ldf)) (\<lambda>max_speed_idx.
           bind_err (idxmax (column Dynamic_Pressure ldf)) (\<lambda>max_qbar_idx.
           bind_err (idxmax (column Acceleration ldf)) (\<lambda>max_accel_idx.
           bind_err (idxmax (column qbar_atan_aoa ldf)) (\<lambda>max_qbar_atan_idx.
           bind_err (idxmax (column Altitude ldf)) (\<lambda>max_altitude_idx.
           bind_err (idxmax (column Time ldf)) (\<lambda>final_point_idx.
           bind_err (idxmax (column parachute_deploy_gain ldf)) (\<lambda>parachute_deploy_idx.
           bind_err (idxmax (column Thrust ldf)) (\<lambda>max_thrust_idx.
             (let extrema_points =
                    [(''initial_point'', initial_point_idx,
                        Altitude (df ! initial_point_idx), ''altitude''),
                     (''launch_clear'', launch_clear_idx,
                        Altitude (df ! launch_clear_idx), ''altitude''),
                     (''max_speed'', max_speed_idx,
                        True_Velocity (df ! max_speed_idx), ''true_velocity''),
                     (''max_dynamic_pressure'', max_qbar_idx,
                        Dynamic_Pressure (df ! max_qbar_idx), ''dynamic_pressure''),
                     (''max_acceleration'', max_accel_idx,
                        Acceleration (df ! max_accel_idx), ''acceleration''),
                     (''max_qbar_atan_aoa'', max_qbar_atan_idx,
                        qbar_atan_aoa (df ! max_qbar_atan_idx), ''qbar_atan_aoa''),
                     (''max_altitude'', max_altitude_idx,
                        Altitude (df ! max_altitude_idx), ''altitude''),
                     (''final_point'', final_point_idx,
                        Altitude (df ! final_point_idx), ''altitude''),
                     (''parachute_deploy'', parachute_deploy_idx,
                        parachute_deploy_gain (df ! parachute_deploy_idx),
                        ''parachute_deploy_gain''),
                     (''max_thrust'', max_thrust_idx,
                        Thrust (df ! max_thrust_idx), ''thrust'')]
              in Inr (map (extrema_row geo landing_range df
                             (Latitude (df ! initial_point_idx))
                             (Longitude (df ! initial_point_idx)))
                        extrema_points))))))))))))))"

subsection \<open>Summary of one run\<close>

text \<open>
  The summary row of a run. A maximum is \<open>None\<close> where pandas yields NaN. The second
  component of the result of \<open>summarize_output_info_df\<close> is the flight-path document it
  saves.
\<close>

record run_summary = landed +
  max_altitude :: "real option"
  max_speed :: "real option"
  max_pressure :: "real option"
  launch_clear_speed :: real

definition summarize_output_info_df ::
  "(real \<Rightarrow> real) \<Rightarrow> launch \<Rightarrow> 'a timestep_scheme list
     \<Rightarrow> error + (run_summary \<times> kml)" where
  "summarize_output_info_df math_sin output_info_df output_df =
     (let h = launch_clear_height math_sin output_info_df
      in case filter (\<lambda>row. Altitude row > h) output_df of
           [] \<Rightarrow> Inl IndexError
         | first_clear # _ \<Rightarrow>
             (case rev output_df of
                [] \<Rightarrow> Inl IndexError
              | final # _ \<Rightarrow>
                  (let coordinates_3d =
                         map (\<lambda>row. [Longitude row, Latitude row, Altitude row]) output_df;
                       coordinates_2d =
                         map (\<lambda>row. [Longitude row, Latitude row]) output_df;
                       (e1, k1) = add_line coordinates_3d ''flight_path'' (255, 0, 0) 3 []
                   in case e1 of
                        Some e \<Rightarrow> Inl e
                      | None \<Rightarrow>
                          (let (e2, k2) = add_line coordinates_2d ''flight_path'' (0, 255, 0) 3 k1
                           in case e2 of
                                Some e \<Rightarrow> Inl e
                              | None \<Rightarrow>
                                  Inr (\<lparr>landed_latitude = Latitude final,
                                        landed_longitude = Longitude final,
                                        max_altitude = series_max (map Altitude output_df),
                                        max_speed = series_max (map True_Velocity output_df),
                                        max_pressure =
                                          series_max (map Dynamic_Pressure output_df),
                                        launch_clear_speed = True_Velocity first_clear\<rparr>,
                                       k2)))))"

subsection \<open>Tables over the ensemble\<close>

definition generate_final_points_dataframe ::
  "sites \<Rightarrow> (string \<times> 'a landed_scheme list) list \<Rightarrow> string \<Rightarrow> table" where
  "generate_final_points_dataframe LAUNCH_SITES grouped_df landing_range_script =
     (case LAUNCH_SITES landing_range_script of
        None \<Rightarrow> [ [(''landing_range'', Num 0)] ]
      | Some landing_range \<Rightarrow>
          concat (map (\<lambda>(group_key, group_df).
                         map (\<lambda>row. [(''group_key'', Str group_key),
                                     (''landed_longitude'', Num (landed_longitude row)),
                                     (''landed_latitude'', Num (landed_latitude row)),
                                     (''landing_range'',
                                        Num (landing_range (landed_latitude row)
                                               (landed_longitude row)))])
                             group_df)
                      grouped_df))"

text \<open>
  The ensemble frame of \<open>generate_landing_range_table\<close>: its column names, plain or pairs,
  and its rows, each a function from the column names to the values. Reading a column
  the frame does not have raises \<open>KeyError\<close>.
\<close>

datatype column_name = Name string | Tuple string string

record simulation_df =
  columns :: "column_name list"
  rows :: "(column_name \<Rightarrow> real) list"

definition row_get :: "column_name list \<Rightarrow> (column_name \<Rightarrow> real) \<Rightarrow> column_name \<Rightarrow> error + real" where
  "row_get cols row c = (if c \<in> set cols then Inr (row c) else Inl KeyError)"

text \<open>Python's \<open>pat in s\<close> on strings.\<close>

definition str_contains :: "string \<Rightarrow> string \<Rightarrow> bool" where
  "str_contains pat s = list_ex (occurs_at pat s) [0 ..< Suc (length s)]"

fun sequence_err :: "(error + 'a) list \<Rightarrow> error + 'a list" where
  "sequence_err [] = Inr []"
| "sequence_err (m # ms) =
     bind_err m (\<lambda>x. bind_err (sequence_err ms) (\<lambda>xs. Inr (x # xs)))"

definition mean_opt :: "real list \<Rightarrow> real option" where
  "mean_opt xs = (if xs = [] then None else Some (sum_list xs / real (length xs)))"

text \<open>
  The result of \<open>generate_landing_range_table\<close>: the empty frame \<open>pd.DataFrame()\<close>, or the
  pivot table with its sorted row labels, its sorted column labels and the mean landing
  range of each cell (\<open>None\<close> where no run has the pair).
\<close>

datatype landing_range_table =
    Empty_DataFrame
  | Pivot_table "real list" "real list" "real option list list"

definition pivot_table :: "(real \<times> real \<times> real) list \<Rightarrow> error + landing_range_table" where
  "pivot_table table_data =
     (if table_data = [] then Inl KeyError
      else (let index = sorted_list_of_set (set (map fst table_data));
                cols = sorted_list_of_set (set (map (\<lambda>t. fst (snd t)) table_data))
            in Inr (Pivot_table index cols
                      (map (\<lambda>ws. map (\<lambda>wd. mean_opt
                                          (map (\<lambda>t. snd (snd t))
                                             (filter (\<lambda>t. fst t = ws \<and> fst (snd t) = wd)
                                                table_data)))
                                    cols)
                           index))))"

definition generate_landing_range_table ::
  "sites \<Rightarrow> simulation_df \<Rightarrow> string \<Rightarrow> error + landing_range_table" where
  "generate_landing_range_table LAUNCH_SITES simulation_df landing_range_script =
     (case LAUNCH_SITES landing_range_script of
        None \<Rightarrow> Inr Empty_DataFrame
      | Some landing_range \<Rightarrow>
          (let ground_wind_speed_cols =
                 filter (\<lambda>col. case col of Tuple a b \<Rightarrow> str_contains ''ground_wind_speed'' b
                               | Name n \<Rightarrow> False) (columns simulation_df);
               ground_wind_dir_cols =
                 filter (\<lambda>col. case col of Tuple a b \<Rightarrow> str_contains ''ground_wind_dir'' b
                               | Name n \<Rightarrow> False) (columns simulation_df)
           in if ground_wind_speed_cols = [] \<or> ground_wind_dir_cols = []
              then Inr Empty_DataFrame
              else bind_err
                     (sequence_err
                        (map (\<lambda>row.
                                bind_err (row_get (columns simulation_df) row
                                            (Name ''landed_latitude'')) (\<lambda>landed_lat.
                                bind_err (row_get (columns simulation_df) row
                                            (Name ''landed_longitude'')) (\<lambda>landed_lon.
                                  Inr (row (hd ground_wind_speed_cols),
                                       row (hd ground_wind_dir_cols),
                                       landing_range landed_lat landed_lon))))
                           (rows simulation_df)))
                     pivot_table))"

section \<open>Safety zone: \<open>landing_range/noshiro_sea.py\<close>\<close>

text \<open>
  The vertices of the safety polygon, as (latitude, longitude) pairs.
\<close>

definition POLYGON_COORDINATES :: "(real \<times> real) list" where
  "POLYGON_COORDINATES =
     [(40.26149300294178, 140.0094791592612), (40.2642602688727, 139.9932398872506),
      (40.26460197870949, 139.9909318144494), (40.26479085228271, 139.987341377515),
      (40.26433616899444, 139.9822728225093), (40.26299626432305, 139.9772825248559),
      (40.26199299246836, 139.9749085824227), (40.26086444600114, 139.9728365038179),
      (40.25942370332147, 139.9707401748826), (40.25768975453263, 139.9687716646912),
      (40.25623515050533, 139.9674723780254), (40.2542151641483, 139.9660514425467),
      (40.25321298436799, 139.9655135448727), (40.25217003129539, 139.9650383050235),
      (40.25108666779969, 139.9646461338833), (40.24955206871581, 139.9642513745098),
      (40.24773454477712, 139.9640056563258), (40.24539983694682, 139.9640511121102),
      (40.24374397618987, 139.9643229542895), (40.2425575973181, 139.9646499711443),
      (40.24051201896022, 139.9654720128462), (40.2397071808194, 139.9658925750851),
      (40.23887443488726, 139.9663943856586), (40.23809058315737, 139.9669364758578),
      (40.23665050758729, 139.9680927149552), (40.23501881430268, 139.9697393127221),
      (40.23327859167702, 139.9720099153484), (40.2318726711675, 139.9743989893189),
      (40.23049586884894, 139.9776040232665), (40.22954585557037, 139.9808509371636),
      (40.22916933193805, 139.9828861110256), (40.22887535311624, 139.9845918728399),
      (40.22617410359279, 140.0002466848887)]"

text \<open>
  The geometry objects of \<open>shapely\<close> hold planar points \<open>(x, y)\<close>, here (longitude,
  latitude). A polygon is given by its ring of vertices; its \<open>boundary\<close> is the closed line
  through them. The library itself is not part of the sources: \<open>polygon.contains(point)\<close>
  and the first component of \<open>nearest_points(geometry, point)\<close> are parameters, as is the
  geodesic distance in metres of \<open>geopy\<close>.
\<close>

datatype geometry = Polygon_geom "(real \<times> real) list" | Boundary_geom "(real \<times> real) list"

record shapely =
  polygon_contains :: "(real \<times> real) list \<Rightarrow> real \<times> real \<Rightarrow> bool"
  nearest_points :: "geometry \<Rightarrow> real \<times> real \<Rightarrow> real \<times> real"

text \<open>The state of a \<open>NoshiroSea\<close> object, and the object its constructor builds.\<close>

record noshiro_sea =
  self_polygon :: "(real \<times> real) list"

definition NoshiroSea :: noshiro_sea where
  "NoshiroSea = \<lparr>self_polygon = map (\<lambda>(lat, lon). (lon, lat)) POLYGON_COORDINATES\<rparr>"

definition landing_range ::
  "shapely \<Rightarrow> geodesic \<Rightarrow> noshiro_sea \<Rightarrow> real \<Rightarrow> real \<Rightarrow> real" where
  "landing_range lib geo self latitude longitude =
     (let point = (longitude, latitude);
          is_inside = polygon_contains lib (self_polygon self) point;
          target_geometry = (if is_inside then Boundary_geom (self_polygon self)
                             else Polygon_geom (self_polygon self));
          nearest_p_on_geom = nearest_points lib target_geometry point;
          distance = geo (latitude, longitude)
                       (snd nearest_p_on_geom, fst nearest_p_on_geom)
      in if is_inside then distance else - distance)"

section \<open>A document with a top-level Document element, in the words of the specification\<close>

text \<open>
  The text \<open>s\<close> consists of a header, the opening tag \<open><Document ...>\<close> with its attributes,
  the inner content, the closing tag \<open></Document>\<close> and a footer; the opening tag is the
  first one of the text and the closing tag the last one.
\<close>

definition top_level_Document ::
  "string \<Rightarrow> string \<Rightarrow> string \<Rightarrow> string \<Rightarrow> string \<Rightarrow> bool" where
  "top_level_Document s header attrs inner footer \<longleftrightarrow>
     s = header @ ''<Document'' @ attrs @ ''>'' @ inner @ ''</Document>'' @ footer
     \<and> list_all (\<lambda>j. \<not> occurs_at ''<Document'' s j) [0 ..< length header]
     \<and> CHR ''>'' \<notin> set attrs
     \<and> list_all (\<lambda>p. \<not> occurs_at ''</Document>'' (inner @ ''</Document>'' @ footer) p)
         [Suc (length inner) ..< Suc (length (inner @ ''</Document>'' @ footer))]"

section \<open>The load metric in the words of the specification\<close>

text \<open>
  The total angle of attack in degrees, \<open>acos(cos(alpha) * cos(beta))\<close>, from the angle of
  attack and the angle of sideslip in degrees.
\<close>

definition spec_total_AoA_degrees :: "real \<Rightarrow> real \<Rightarrow> real" where
  "spec_total_AoA_degrees alpha_deg beta_deg =
     np_degrees (arccos (cos (np_radians alpha_deg) * cos (np_radians beta_deg)))"

section \<open>Sample inputs\<close>

text \<open>
  A row at time \<open>t\<close>, altitude \<open>h\<close> and true velocity \<open>v\<close>, with unit dynamic pressure and
  zero angles; a run of two such rows that stays below five metres; a launcher five metres
  long that points straight up, a level one on a stand five metres high and one inclined
  at 30 degrees; a registry with one site; a stand-in for the geodesic distance.
\<close>

definition trajectory_row :: "real \<Rightarrow> real \<Rightarrow> real \<Rightarrow> timestep" where
  "trajectory_row t h v =
     \<lparr>Time = t, Latitude = 0, Longitude = 0, Altitude = h, Angle_of_Attack = 0,
      Angle_of_Sideslip = 0, True_Velocity = v, Ground_Velocity = 0, X_Acceleration = 0,
      Y_Acceleration = 0, Z_Acceleration = 0, Dynamic_Pressure = 1, Thrust = 0,
      parachute_deploy_gain = 0\<rparr>"

definition grounded_run :: "acc_row list" where
  "grounded_run =
     calculate_acceleration (calculate_aoa [trajectory_row 0 0 0, trajectory_row 1 2 3])"

definition vertical_launcher :: launch where
  "vertical_launcher = \<lparr>elevation = 0, launcher_length = 5, pitch = 90\<rparr>"

definition level_launcher :: launch where
  "level_launcher = \<lparr>elevation = 5, launcher_length = 5, pitch = 0\<rparr>"

definition inclined_launcher :: launch where
  "inclined_launcher = \<lparr>elevation = 0, launcher_length = 5, pitch = 30\<rparr>"

definition grid_distance :: geodesic where
  "grid_distance p q = \<bar>fst p - fst q\<bar> + \<bar>snd p - snd q\<bar>"

definition one_site :: sites where
  "one_site = [''noshiro_sea'' \<mapsto> (\<lambda>lat lon. lat + lon)]"

text \<open>
  A polygon that is the unit square, with the library answers for it: a point is contained
  when it lies strictly inside, the nearest point of the area is the point clamped to the
  square, and the nearest point of the boundary of a contained point is its projection on
  the nearest side.
\<close>

definition unit_square :: noshiro_sea where
  "unit_square = \<lparr>self_polygon = [(0, 0), (1, 0), (1, 1), (0, 1)]\<rparr>"

definition square_contains :: "(real \<times> real) list \<Rightarrow> real \<times> real \<Rightarrow> bool" where
  "square_contains ring p \<longleftrightarrow> 0 < fst p \<and> fst p < 1 \<and> 0 < snd p \<and> snd p < 1"

definition square_nearest :: "geometry \<Rightarrow> real \<times> real \<Rightarrow> real \<times> real" where
  "square_nearest g p =
     (let x = fst p; y = snd p;
          clamped = (max 0 (min 1 x), max 0 (min 1 y));
          m = min (min x (1 - x)) (min y (1 - y));
          projected = (if m = x then (0, y) else if m = 1 - x then (1, y)
                       else if m = y then (x, 0) else (x, 1))
      in case g of
           Polygon_geom ring \<Rightarrow> clamped
         | Boundary_geom ring \<Rightarrow> (if square_contains ring p then projected else clamped))"

definition square_library :: shapely where
  "square_library = \<lparr>polygon_contains = square_contains, nearest_points = square_nearest\<rparr>"

text \<open>Two documents to merge; two groups of landed points, of three and of four runs.\<close>

definition flight_path_kml :: string where
  "flight_path_kml = ''<kml><Document id=p><A/></Document></kml>''"

definition footprint_kml :: string where
  "footprint_kml = ''<?xml?><kml><Document><B/><B/></Document></kml>''"

definition landed_at :: "real \<Rightarrow> real \<Rightarrow> landed" where
  "landed_at lat lon = \<lparr>landed_latitude = lat, landed_longitude = lon\<rparr>"

definition two_groups :: "(string \<times> landed list) list" where
  "two_groups =
     [(''0'', [landed_at 40.24 139.97, landed_at 40.25 139.98, landed_at 40.26 139.97]),
      (''90'', [landed_at 40.24 139.97, landed_at 40.25 139.98, landed_at 40.26 139.97,
                landed_at 40.25 139.96])]"

section \<open>Properties of the float64 rounding\<close>

lemma round_half_even_of_int: "round_half_even (of_int n) = n"
  by (simp add: round_half_even_def)

lemma round_half_even_bounds:
  "\<lfloor>y\<rfloor> \<le> round_half_even y" "round_half_even y \<le> \<lfloor>y\<rfloor> + 1"
  by (simp_all add: round_half_even_def Let_def)

lemma round_half_even_mono:
  assumes "a \<le> b"
  shows "round_half_even a \<le> round_half_even b"
proof (cases "\<lfloor>a\<rfloor> = \<lfloor>b\<rfloor>")
  case True
  then show ?thesis
    using assms by (auto simp: round_half_even_def Let_def)
next
  case False
  then have "\<lfloor>a\<rfloor> < \<lfloor>b\<rfloor>"
    using assms floor_mono [of a b] by linarith
  then have "round_half_even a \<le> \<lfloor>b\<rfloor>"
    using round_half_even_bounds(2) [of a] by linarith
  then show ?thesis
    using round_half_even_bounds(1) [of b] by linarith
qed

lemma round_half_even_uminus: "round_half_even (- a) = - round_half_even a"
proof (cases "a \<in> \<int>")
  case True
  then obtain n where "a = of_int n" by (auto elim: Ints_cases)
  then show ?thesis
    using round_half_even_of_int [of n] round_half_even_of_int [of "- n"] by simp
next
  case False
  have ne: "a \<noteq> of_int \<lfloor>a\<rfloor>"
    using False by (metis Ints_of_int)
  then have fl: "\<lfloor>- a\<rfloor> = - \<lfloor>a\<rfloor> - 1"
    by (simp add: floor_minus ceiling_altdef)
  have fr: "of_int \<lfloor>a\<rfloor> < a" "a < of_int \<lfloor>a\<rfloor> + 1"
    using ne of_int_floor_le [of a] floor_correct [of a] by linarith+
  show ?thesis
    unfolding round_half_even_def Let_def fl using fr by auto
qed

lemma float64_alt:
  "x \<noteq> 0 \<Longrightarrow> float64 x
     = of_int (round_half_even (x / 2 powr of_int (ulp_exponent x)))
         * 2 powr of_int (ulp_exponent x)"
  by (simp add: float64_def)

lemma float64_0: "float64 0 = 0"
  by (simp add: float64_def)

lemma float64_uminus: "float64 (- x) = - float64 x"
  by (simp add: float64_def ulp_exponent_def round_half_even_uminus)

text \<open>Within a binade of normal numbers the unit in the last place is fixed.\<close>

lemma float64_normal:
  assumes "2 powr of_int E \<le> \<bar>x\<bar>" "\<bar>x\<bar> < 2 powr of_int (E + 1)" "- 1022 \<le> E"
  shows "float64 x
           = of_int (round_half_even (x / 2 powr of_int (E - 52))) * 2 powr of_int (E - 52)"
proof -
  have pos: "0 < \<bar>x\<bar>"
    using assms(1) powr_gt_zero [of 2 "of_int E"] by linarith
  have "\<lfloor>log 2 \<bar>x\<bar>\<rfloor> = E"
    using assms pos by (subst floor_log_eq_powr_iff) simp_all
  then have "ulp_exponent x = E - 52"
    using assms(3) by (simp add: ulp_exponent_def)
  then show ?thesis
    using pos by (simp add: float64_def)
qed

lemma float64_nonneg: "0 \<le> x \<Longrightarrow> 0 \<le> float64 x"
proof -
  assume x: "0 \<le> x"
  have "(0::real) \<le> x / 2 powr of_int (ulp_exponent x)" using x by simp
  then have "round_half_even 0 \<le> round_half_even (x / 2 powr of_int (ulp_exponent x))"
    by (rule round_half_even_mono)
  then have "0 \<le> round_half_even (x / 2 powr of_int (ulp_exponent x))"
    using round_half_even_of_int [of 0] by simp
  then show ?thesis
    by (simp add: float64_def)
qed

lemma binade:
  assumes "0 < x"
  shows "2 powr of_int \<lfloor>log 2 x\<rfloor> \<le> x" "x < 2 powr of_int (\<lfloor>log 2 x\<rfloor> + 1)"
  using floor_log_eq_powr_iff [of x 2 "\<lfloor>log 2 x\<rfloor>"] assms by simp_all

lemma ulp_exponent_mono:
  assumes "0 < x" "x \<le> y"
  shows "ulp_exponent x \<le> ulp_exponent y"
proof -
  have "log 2 x \<le> log 2 y" using assms by simp
  then have "\<lfloor>log 2 x\<rfloor> \<le> \<lfloor>log 2 y\<rfloor>" by (rule floor_mono)
  then show ?thesis using assms by (simp add: ulp_exponent_def)
qed

lemma float64_upper:
  assumes "0 < x"
  shows "float64 x \<le> 2 powr of_int (ulp_exponent x + 53)"
proof -
  let ?e = "ulp_exponent x"
  have p: "0 < 2 powr (of_int ?e :: real)" by simp
  have "\<lfloor>log 2 x\<rfloor> + 1 \<le> ?e + 53" using assms by (simp add: ulp_exponent_def)
  then have "(2::real) powr of_int (\<lfloor>log 2 x\<rfloor> + 1) \<le> 2 powr of_int (?e + 53)"
    by (intro powr_mono) simp_all
  then have "x \<le> 2 powr of_int (?e + 53)"
    using binade(2) [OF assms] by linarith
  also have "\<dots> = 2 powr of_int ?e * of_int (2 ^ 53)"
    by (simp add: powr_add)
  finally have "x / 2 powr of_int ?e \<le> of_int (2 ^ 53)"
    using p by (simp add: field_simps)
  then have "round_half_even (x / 2 powr of_int ?e) \<le> round_half_even (of_int (2 ^ 53))"
    by (rule round_half_even_mono)
  then have "round_half_even (x / 2 powr of_int ?e) \<le> 2 ^ 53"
    by (simp only: round_half_even_of_int)
  then have "(of_int (round_half_even (x / 2 powr of_int ?e)) :: real) \<le> of_int (2 ^ 53)"
    by (simp only: of_int_le_iff)
  then have "of_int (round_half_even (x / 2 powr of_int ?e)) * 2 powr of_int ?e
               \<le> of_int (2 ^ 53) * 2 powr (of_int ?e :: real)"
    using p by (intro mult_right_mono) simp_all
  also have "\<dots> = 2 powr of_int (?e + 53)"
    by (simp add: powr_add)
  finally have b: "of_int (round_half_even (x / 2 powr of_int ?e)) * 2 powr of_int ?e
                     \<le> (2::real) powr of_int (?e + 53)" .
  have c: "float64 x = of_int (round_half_even (x / 2 powr of_int ?e)) * 2 powr of_int ?e"
    using assms by (intro float64_alt) simp
  show ?thesis
    using b c by linarith
qed

lemma float64_lower:
  assumes "0 < y" "- 1074 < ulp_exponent y"
  shows "2 powr of_int (ulp_exponent y + 52) \<le> float64 y"
proof -
  let ?e = "ulp_exponent y"
  have p: "0 < 2 powr (of_int ?e :: real)" by simp
  have e: "?e + 52 = \<lfloor>log 2 y\<rfloor>"
    using assms by (simp add: ulp_exponent_def max_def split: if_splits)
  have "2 powr of_int (?e + 52) \<le> y"
    using binade(1) [OF assms(1)] by (simp only: e)
  moreover have "2 powr of_int (?e + 52) = 2 powr of_int ?e * (of_int (2 ^ 52) :: real)"
    by (simp add: powr_add)
  ultimately have "of_int (2 ^ 52) \<le> y / 2 powr of_int ?e"
    using p by (simp add: field_simps)
  then have "round_half_even (of_int (2 ^ 52)) \<le> round_half_even (y / 2 powr of_int ?e)"
    by (rule round_half_even_mono)
  then have "2 ^ 52 \<le> round_half_even (y / 2 powr of_int ?e)"
    by (simp only: round_half_even_of_int)
  then have "(of_int (2 ^ 52) :: real) \<le> of_int (round_half_even (y / 2 powr of_int ?e))"
    by (simp only: of_int_le_iff)
  then have b: "of_int (2 ^ 52) * 2 powr (of_int ?e :: real)
               \<le> of_int (round_half_even (y / 2 powr of_int ?e)) * 2 powr of_int ?e"
    using p by (intro mult_right_mono) simp_all
  have a: "of_int (2 ^ 52) * 2 powr (of_int ?e :: real) = 2 powr of_int (?e + 52)"
    by (simp add: powr_add)
  have c: "float64 y = of_int (round_half_even (y / 2 powr of_int ?e)) * 2 powr of_int ?e"
    using assms(1) by (intro float64_alt) simp
  show ?thesis
    using a b c by linarith
qed

lemma float64_mono_pos:
  assumes "0 < x" "x \<le> y"
  shows "float64 x \<le> float64 y"
proof (cases "ulp_exponent x = ulp_exponent y")
  case True
  let ?e = "ulp_exponent y"
  have "x / 2 powr of_int ?e \<le> y / 2 powr of_int ?e"
    using assms by (simp add: divide_right_mono)
  then have "round_half_even (x / 2 powr of_int ?e) \<le> round_half_even (y / 2 powr of_int ?e)"
    by (rule round_half_even_mono)
  then have "of_int (round_half_even (x / 2 powr of_int ?e)) * 2 powr of_int ?e
               \<le> of_int (round_half_even (y / 2 powr of_int ?e)) * 2 powr (of_int ?e :: real)"
    by (intro mult_right_mono) simp_all
  then show ?thesis
    using assms True by (simp add: float64_alt)
next
  case False
  then have lt: "ulp_exponent x < ulp_exponent y"
    using ulp_exponent_mono [OF assms] by linarith
  have "- 1074 \<le> ulp_exponent x" by (simp add: ulp_exponent_def)
  then have big: "- 1074 < ulp_exponent y" using lt by linarith
  have "float64 x \<le> 2 powr of_int (ulp_exponent x + 53)"
    using assms(1) by (rule float64_upper)
  also have "\<dots> \<le> 2 powr of_int (ulp_exponent y + 52)"
    using lt by (intro powr_mono) simp_all
  also have "\<dots> \<le> float64 y"
    using assms big by (intro float64_lower) simp_all
  finally show ?thesis .
qed

theorem float64_mono:
  assumes "x \<le> y"
  shows "float64 x \<le> float64 y"
proof -
  consider "0 < x" | "x \<le> 0" "0 \<le> y" | "y < 0" by linarith
  then show ?thesis
  proof cases
    case 1
    then show ?thesis using assms by (rule float64_mono_pos)
  next
    case 2
    have "float64 x = - float64 (- x)" by (simp add: float64_uminus)
    moreover have "0 \<le> float64 (- x)" using 2 by (intro float64_nonneg) simp
    moreover have "0 \<le> float64 y" using 2 by (intro float64_nonneg)
    ultimately show ?thesis by linarith
  next
    case 3
    then have "float64 (- y) \<le> float64 (- x)"
      using assms by (intro float64_mono_pos) simp_all
    then show ?thesis by (simp add: float64_uminus)
  qed
qed

text \<open>Evaluation of the rounding at numerals.\<close>

lemma pow2_eval:
  "(2::real) powr numeral n = 2 ^ numeral n"
  "(2::real) powr (- numeral n) = 1 / 2 ^ numeral n"
  by (simp_all add: powr_numeral powr_neg_numeral)

lemma float64_5: "float64 5 = 5"
  by (subst float64_normal [where E = 2]) (simp_all add: round_half_even_def pow2_eval Let_def)

lemma float64_literal_0_01: "float64 0.01 = 5764607523034235 / 2 ^ 59"
  by (subst float64_normal [where E = "- 7"])
    (simp_all add: round_half_even_def pow2_eval Let_def)

lemma float64_literal_0_09: "float64 0.09 = 3242591731706757 / 2 ^ 55"
  by (subst float64_normal [where E = "- 4"])
    (simp_all add: round_half_even_def pow2_eval Let_def)

lemma float64_literal_0_1: "float64 0.1 = 3602879701896397 / 2 ^ 55"
  by (subst float64_normal [where E = "- 4"])
    (simp_all add: round_half_even_def pow2_eval Let_def)

lemma float64_literal_0_99: "float64 0.99 = 4458563631096791 / 2 ^ 52"
  by (subst float64_normal [where E = "- 1"])
    (simp_all add: round_half_even_def pow2_eval Let_def)

text \<open>\<open>0.1 - 0.01\<close> is \<open>0.09000000000000001\<close>, and \<open>1.0 - 0.01\<close> is \<open>0.99\<close>.\<close>

lemma float64_0_1_minus_0_01:
  "float64 (float64 0.1 - float64 0.01) = 6485183463413515 / 2 ^ 56"
  unfolding float64_literal_0_1 float64_literal_0_01
  by (subst float64_normal [where E = "- 4"])
    (simp_all add: round_half_even_def pow2_eval Let_def)

lemma float64_1_minus_0_01:
  "float64 (1 - float64 0.01) = float64 0.99"
  unfolding float64_literal_0_99 float64_literal_0_01
  by (subst float64_normal [where E = "- 1"])
    (simp_all add: round_half_even_def pow2_eval Let_def)

section \<open>Properties of the wind table\<close>

lemma length_generate_wind_table:
  "length (generate_wind_table d v r a) = length altitudes_s"
  by (simp add: generate_wind_table_def Let_def series_pow_def)

lemma altitudes_of_generate_wind_table:
  "map fst (generate_wind_table d v r a) = altitudes_s"
  by (simp add: generate_wind_table_def Let_def series_pow_def map_fst_zip_take)

lemma directions_of_generate_wind_table:
  "map (\<lambda>s. snd (snd s)) (generate_wind_table d v r a) =
     replicate (length altitudes_s) (wind_direction d)"
proof -
  have "map (\<lambda>s. snd (snd s)) (zip xs (zip ys zs)) = zs"
    if "length xs = length zs" "length ys = length zs" for xs ys zs :: "real list"
    using that
  proof (induction zs arbitrary: xs ys)
    case Nil
    then show ?case by simp
  next
    case (Cons z zs)
    then show ?case by (cases xs; cases ys) simp_all
  qed
  then show ?thesis
    by (simp add: generate_wind_table_def Let_def series_pow_def)
qed

lemma high_altitudes_nonempty: "high_altitudes \<noteq> []"
proof -
  have "(0::int) < \<lceil>(10001 - 1000) / (100::real)\<rceil>"
    by (simp add: less_ceiling_iff)
  then show ?thesis
    by (simp add: high_altitudes_def np_arange_def)
qed

lemma altitudes_s_nonempty: "altitudes_s \<noteq> []"
  using high_altitudes_nonempty by (simp add: altitudes_s_def)

text \<open>
  C6. Whatever the arguments, the altitudes of the returned samples are strictly
  increasing from the first sample to the last, and therefore pairwise different.
\<close>

theorem generate_wind_table_altitudes_strictly_increasing:
  "sorted_wrt (<) (map fst (generate_wind_table d v r a))
   \<and> distinct (map fst (generate_wind_table d v r a))"
  by (simp add: altitudes_of_generate_wind_table altitudes_s_def strict_sorted_iff)

text \<open>
  In exact arithmetic, away from 180 the stored direction is the reciprocal bearing modulo
  360 and lies in the range from 0 up to, and not including, 360. (The float64 sum of 180
  and a double just below 180 can still round to 360.)
\<close>

lemma wind_direction_reciprocal_off_180:
  assumes "0 \<le> d" "d < 360" "d \<noteq> 180"
  shows "wind_direction d = spec_reciprocal_bearing d
         \<and> 0 \<le> wind_direction d \<and> wind_direction d < 360"
proof (cases "d > 180")
  case True
  have "\<lfloor>(d + 180) / 360\<rfloor> = 1"
    using True assms by (intro floor_unique) simp_all
  then show ?thesis
    using True assms by (simp add: wind_direction_def spec_reciprocal_bearing_def)
next
  case False
  then have lt: "d < 180" using assms by simp
  have "\<lfloor>(d + 180) / 360\<rfloor> = 0"
    using lt assms by (intro floor_unique) simp_all
  then show ?thesis
    using lt assms by (simp add: wind_direction_def spec_reciprocal_bearing_def)
qed

text \<open>
  C4, at the ground direction 180. The table is not empty and every sample carries the
  direction 360: the test \<open>ground_wind_dir > 180\<close> sends 180 to the \<open>+ 180\<close> branch. The
  stored value is not below 360 and is not the reciprocal bearing modulo 360, which is 0.
\<close>

theorem generate_wind_table_direction_at_180:
  "generate_wind_table 180 v r a \<noteq> []
   \<and> map (\<lambda>s. snd (snd s)) (generate_wind_table 180 v r a)
       = replicate (length (generate_wind_table 180 v r a)) 360
   \<and> \<not> (360::real) < 360
   \<and> spec_reciprocal_bearing 180 = 0"
proof -
  have ne: "generate_wind_table 180 v r a \<noteq> []"
    using altitudes_s_nonempty length_generate_wind_table [of 180 v r a] by auto
  have "\<lfloor>(1::real)\<rfloor> = 1" by simp
  then have sp: "spec_reciprocal_bearing 180 = 0"
    by (simp add: spec_reciprocal_bearing_def)
  show ?thesis
    using ne sp
    by (simp add: directions_of_generate_wind_table length_generate_wind_table
        wind_direction_def)
qed

section \<open>Properties of \<open>delete_final_point\<close>\<close>

lemma fold_max_eq_Max: "fold max ys (x::real) = Max (set (x # ys))"
proof (induction ys arbitrary: x)
  case Nil
  then show ?case by simp
next
  case (Cons y ys)
  have "fold max (y # ys) x = Max (set (max y x # ys))"
    using Cons.IH [of "max y x"] by simp
  also have "\<dots> = Max (insert (max y x) (set ys))" by simp
  also have "\<dots> = Max (insert y (insert x (set ys)))"
    by (cases "set ys = {}") (simp_all add: max.assoc max.commute max.left_commute)
  finally show ?case by (simp add: insert_commute)
qed

lemma series_max_eq_Max: "xs \<noteq> [] \<Longrightarrow> series_max xs = Some (Max (set xs))"
  by (cases xs) (simp_all add: series_max_def fold_max_eq_Max)

lemma float64_sub_literal_le:
  assumes "is_float64 m"
  shows "float64 (m - float64 0.01) \<le> m"
proof -
  have "(0::real) \<le> 0.01" by simp
  then have "0 \<le> float64 0.01" by (rule float64_nonneg)
  then have "m - float64 0.01 \<le> m" by simp
  then have "float64 (m - float64 0.01) \<le> float64 m" by (rule float64_mono)
  then show ?thesis using assms by (simp add: is_float64_def)
qed

text \<open>
  C10. The rewritten table is the original one filtered, in the original order and with
  the rows themselves untouched, by the test that \<open>Time\<close> is strictly below the largest
  \<open>Time\<close> minus 0.01, the difference being the double that the subtraction of the code
  yields. The largest \<open>Time\<close> of a table is a double, and no row at the largest \<open>Time\<close>
  survives. (An empty table, which has no largest \<open>Time\<close>, stays empty.)
\<close>

theorem delete_final_point_keeps_early_rows:
  "delete_final_point ([] :: 'a timestep_scheme list) = []
   \<and> (output_df \<noteq> [] \<longrightarrow>
        delete_final_point output_df =
          filter (\<lambda>r. Time r < float64 (Max (Time ` set output_df) - float64 0.01)) output_df
        \<and> (is_float64 (Max (Time ` set output_df)) \<longrightarrow>
             (\<forall>r \<in> set output_df. Time r = Max (Time ` set output_df)
                \<longrightarrow> r \<notin> set (delete_final_point output_df))))"
proof (intro conjI impI)
  show "delete_final_point ([] :: 'a timestep_scheme list) = []"
    by (simp add: delete_final_point_def series_max_def)
next
  assume ne: "output_df \<noteq> []"
  then have m: "series_max (map Time output_df) = Some (Max (Time ` set output_df))"
    using series_max_eq_Max [of "map Time output_df"] by simp
  then show kept: "delete_final_point output_df =
          filter (\<lambda>r. Time r < float64 (Max (Time ` set output_df) - float64 0.01)) output_df"
    by (simp add: delete_final_point_def)
  assume "is_float64 (Max (Time ` set output_df))"
  then have "\<not> Max (Time ` set output_df)
               < float64 (Max (Time ` set output_df) - float64 0.01)"
    using float64_sub_literal_le [of "Max (Time ` set output_df)"] by linarith
  then show "\<forall>r \<in> set output_df. Time r = Max (Time ` set output_df)
               \<longrightarrow> r \<notin> set (delete_final_point output_df)"
    unfolding kept by simp
qed

lemma Max_Time_three:
  "Max (Time ` set [trajectory_row 0 0 0, trajectory_row (float64 0.09) 5 3,
                    trajectory_row (float64 0.1) 5 3]) = float64 0.1"
  unfolding float64_literal_0_09 float64_literal_0_1
  by (simp add: trajectory_row_def)

lemma is_float64_0_1: "is_float64 (float64 0.1)"
  unfolding is_float64_def float64_literal_0_1
  by (subst float64_normal [where E = "- 4"])
    (simp_all add: round_half_even_def pow2_eval Let_def)

theorem delete_final_point_keeps_early_rows_witness:
  "[trajectory_row 0 0 0, trajectory_row (float64 0.09) 5 3, trajectory_row (float64 0.1) 5 3]
     \<noteq> []
   \<and> is_float64 (float64 0.1)
   \<and> delete_final_point
         [trajectory_row 0 0 0, trajectory_row (float64 0.09) 5 3,
          trajectory_row (float64 0.1) 5 3]
       = [trajectory_row 0 0 0, trajectory_row (float64 0.09) 5 3]
   \<and> trajectory_row (float64 0.1) 5 3
       \<notin> set (delete_final_point
                [trajectory_row 0 0 0, trajectory_row (float64 0.09) 5 3,
                 trajectory_row (float64 0.1) 5 3])"
proof -
  let ?df = "[trajectory_row 0 0 0, trajectory_row (float64 0.09) 5 3,
              trajectory_row (float64 0.1) 5 3]"
  have ne: "?df \<noteq> []" by simp
  have mx: "Max (Time ` set ?df) = float64 0.1" by (rule Max_Time_three)
  have fl: "is_float64 (Max (Time ` set ?df))"
    unfolding mx by (rule is_float64_0_1)
  have kept: "delete_final_point ?df
                = filter (\<lambda>r. Time r < float64 (Max (Time ` set ?df) - float64 0.01)) ?df"
    and gone: "\<forall>r \<in> set ?df. Time r = Max (Time ` set ?df)
                 \<longrightarrow> r \<notin> set (delete_final_point ?df)"
    using delete_final_point_keeps_early_rows [of ?df] ne fl by blast+
  have "filter (\<lambda>r. Time r < float64 (float64 0.1 - float64 0.01)) ?df
          = [trajectory_row 0 0 0, trajectory_row (float64 0.09) 5 3]"
    unfolding float64_0_1_minus_0_01
    unfolding float64_literal_0_09 float64_literal_0_1
    by (simp add: trajectory_row_def)
  then have "delete_final_point ?df
               = [trajectory_row 0 0 0, trajectory_row (float64 0.09) 5 3]"
    using kept by (simp only: mx)
  moreover have "trajectory_row (float64 0.1) 5 3 \<notin> set (delete_final_point ?df)"
    using gone mx by (simp add: trajectory_row_def)
  ultimately show ?thesis using ne is_float64_0_1 by blast
qed

text \<open>
  Two tables at the boundary. With the times 0, 0.09 and 0.1 the threshold is
  \<open>0.09000000000000001\<close> and the row at 0.09 is kept (the table above); with the times 0,
  0.99 and 1.0 the threshold is the double 0.99 itself and the row at 0.99 is dropped.
\<close>

lemma delete_final_point_drops_0_99:
  "delete_final_point
     [trajectory_row 0 0 0, trajectory_row (float64 0.99) 5 3, trajectory_row 1 5 3]
   = [trajectory_row 0 0 0]"
proof -
  let ?df = "[trajectory_row 0 0 0, trajectory_row (float64 0.99) 5 3, trajectory_row 1 5 3]"
  have "series_max (map Time ?df) = Some 1"
    unfolding float64_literal_0_99 by (simp add: series_max_def trajectory_row_def)
  then have "delete_final_point ?df
               = filter (\<lambda>r. Time r < float64 (1 - float64 0.01)) ?df"
    by (simp only: delete_final_point_def option.case)
  also have "\<dots> = [trajectory_row 0 0 0]"
    unfolding float64_1_minus_0_01
    unfolding float64_literal_0_99
    by (simp add: trajectory_row_def)
  finally show ?thesis .
qed

section \<open>Properties of the extrema analysis and the run summary\<close>

text \<open>
  C1, as stated, at a rocket at rest with zero angle of attack and sideslip: the total
  angle of attack is zero, so the stated product is zero, while the column computed from
  the table that \<open>calculate_aoa\<close> and \<open>calculate_acceleration\<close> have extended is not.
\<close>

theorem qbar_atan_aoa_is_not_total_AoA_product:
  "map qbar_atan_aoa
     (derive_columns (calculate_acceleration (calculate_aoa [trajectory_row 0 0 0])))
   \<noteq> [Dynamic_Pressure (trajectory_row 0 0 0)
        * spec_total_AoA_degrees (Angle_of_Attack (trajectory_row 0 0 0))
            (Angle_of_Sideslip (trajectory_row 0 0 0))]"
  by (simp add: derive_columns_def calculate_acceleration_def calculate_aoa_def derive_row_def
      calculate_aoa_row_def trajectory_row_def spec_total_AoA_degrees_def np_degrees_def
      np_radians_def VGUST_def timestep.defs aoa_row.defs acc_row.defs derived_row.defs)

text \<open>
  C1, amended. For every input table, the load-metric column \<open>qbar_atan_aoa\<close> of every row
  is the row's dynamic pressure multiplied by the row's gust angle of attack (the column
  \<open>Angle of Attack(gust)\<close>, not the total angle of attack) and by one fixed positive
  conversion factor.
\<close>

theorem qbar_atan_aoa_is_gust_AoA_product:
  "\<exists>k. 0 < k \<and>
       (\<forall>output_df. map qbar_atan_aoa (derive_columns output_df)
          = map (\<lambda>row. k * (Dynamic_Pressure row * Angle_of_Attack_gust row)) output_df)"
proof (intro exI conjI allI)
  show "0 < 180 / pi" by simp
  show "map qbar_atan_aoa (derive_columns output_df)
        = map (\<lambda>row. 180 / pi * (Dynamic_Pressure row * Angle_of_Attack_gust row)) output_df"
    for output_df
    by (simp add: derive_columns_def derive_row_def np_degrees_def acc_row.defs
        derived_row.defs)
qed

text \<open>
  C2, as stated, at a site key the registry does not hold: the extrema analysis does not
  fail, it returns a table of one row whose landing range is the number 0.
\<close>

theorem get_extrema_analysis_unknown_site_returns:
  "one_site ''unknown_site'' = None
   \<and> \<not> isl (get_extrema_analysis one_site grid_distance sin vertical_launcher grounded_run
               ''unknown_site'')"
  by (simp add: get_extrema_analysis_def one_site_def)

text \<open>
  C2, amended. For every site key without a registered evaluator, both operations return
  a degenerate result and neither raises: \<open>generate_landing_range_table\<close> returns the empty
  table, and \<open>get_extrema_analysis\<close> returns the table of one row and one column whose
  landing range is 0.
\<close>

theorem unknown_site_degenerate_results:
  "LAUNCH_SITES landing_range_script = None \<Longrightarrow>
     generate_landing_range_table LAUNCH_SITES simulation_df landing_range_script
       = Inr Empty_DataFrame
     \<and> get_extrema_analysis LAUNCH_SITES geo math_sin output_info_df output_df
           landing_range_script
         = Inr [ [(''landing_range'', Num 0)] ]"
  by (simp add: generate_landing_range_table_def get_extrema_analysis_def)

theorem unknown_site_degenerate_results_witness:
  "one_site ''unknown_site'' = None
   \<and> generate_landing_range_table one_site \<lparr>columns = [], rows = []\<rparr> ''unknown_site''
       = Inr Empty_DataFrame
   \<and> get_extrema_analysis one_site grid_distance sin vertical_launcher grounded_run
         ''unknown_site''
       = Inr [ [(''landing_range'', Num 0)] ]"
  using unknown_site_degenerate_results
    [of one_site "''unknown_site''" "\<lparr>columns = [], rows = []\<rparr>" grid_distance sin
      vertical_launcher grounded_run]
  by (simp add: one_site_def)

text \<open>
  The launch-clear height of the level launcher, as the code computes it, is 5; the two
  rows of the sample run, at the altitudes 0 and 2, stay below it.
\<close>

lemma launch_clear_height_level: "launch_clear_height sin level_launcher = 5"
  by (simp add: launch_clear_height_def level_launcher_def float64_0 float64_5)

text \<open>
  At a pitch of 30 degrees and a launcher length of 5 the rounded steps are
  \<open>30 * math.pi = 94.24777960769379\<close> and, divided by 180, \<open>0.5235987755982988\<close>. With the
  value \<open>0.49999999999999994\<close> that the sine of the C library returns there, the height is
  \<open>2.4999999999999996\<close>: a record at the altitude 2.5 exceeds it.
\<close>

lemma launch_clear_height_inclined:
  assumes "math_sin (4716158501352293 / 2 ^ 53) = 9007199254740991 / 2 ^ 54"
  shows "launch_clear_height math_sin inclined_launcher = 5629499534213119 / 2 ^ 51"
    and "launch_clear_height math_sin inclined_launcher < 2.5"
proof -
  have a: "float64 (30 * math_pi) = 3316048946263331 / 2 ^ 45"
    unfolding math_pi_def
    by (subst float64_normal [where E = 6])
      (simp_all add: round_half_even_def pow2_eval Let_def)
  have b: "float64 (3316048946263331 / 2 ^ 45 / 180) = 4716158501352293 / 2 ^ 53"
    by (subst float64_normal [where E = "- 1"])
      (simp_all add: round_half_even_def pow2_eval Let_def)
  have c: "float64 (5 * (9007199254740991 / 2 ^ 54)) = 5629499534213119 / 2 ^ 51"
    by (subst float64_normal [where E = 1])
      (simp_all add: round_half_even_def pow2_eval Let_def)
  have d: "float64 (0 + 5629499534213119 / 2 ^ 51) = 5629499534213119 / 2 ^ 51"
    by (subst float64_normal [where E = 1])
      (simp_all add: round_half_even_def pow2_eval Let_def)
  have "launch_clear_height math_sin inclined_launcher
          = float64 (0 + float64 (5 * math_sin (float64 (float64 (30 * math_pi) / 180))))"
    by (simp add: launch_clear_height_def inclined_launcher_def)
  also have "\<dots> = 5629499534213119 / 2 ^ 51"
    by (simp only: a b assms c d)
  finally show "launch_clear_height math_sin inclined_launcher = 5629499534213119 / 2 ^ 51" .
  then show "launch_clear_height math_sin inclined_launcher < 2.5"
    by simp
qed

lemma Altitude_grounded_run: "map Altitude grounded_run = [0, 2]"
  by (simp add: grounded_run_def calculate_acceleration_def calculate_aoa_def
      calculate_aoa_row_def trajectory_row_def timestep.defs aoa_row.defs acc_row.defs Let_def)

lemma grounded_run_below_launch_clear:
  "\<forall>row \<in> set grounded_run. \<not> Altitude row > launch_clear_height sin level_launcher"
proof -
  have "list_all (\<lambda>h. \<not> h > launch_clear_height sin level_launcher)
          (map Altitude grounded_run)"
    unfolding Altitude_grounded_run launch_clear_height_level by simp
  then show ?thesis by (simp add: list_all_iff)
qed

text \<open>
  C3, as stated, at a run that never rises above the launch-clear height and a site key
  the registry does not hold: the extrema analysis raises nothing and returns the default
  table.
\<close>

theorem get_extrema_analysis_no_launch_clear_unknown_site:
  "list_all (\<lambda>row. \<not> Altitude row > launch_clear_height sin level_launcher) grounded_run
   \<and> get_extrema_analysis one_site grid_distance sin level_launcher grounded_run
         ''unknown_site''
       = Inr [ [(''landing_range'', Num 0)] ]"
  using grounded_run_below_launch_clear
  by (simp add: get_extrema_analysis_def one_site_def list_all_iff)

lemma Altitude_derive_row: "Altitude (derive_row row) = Altitude row"
  by (simp add: derive_row_def acc_row.defs derived_row.defs)

lemma filter_labelled_empty:
  "\<forall>row \<in> set df. \<not> P row \<Longrightarrow> filter (\<lambda>(i, row). P row) (labelled df) = []"
  by (auto simp: labelled_def filter_empty_conv dest: set_zip_rightD)

lemma idxmin_cases: "idxmin s = Inl ValueError \<or> (\<exists>i. idxmin s = Inr i)"
  by (cases s) (simp_all add: idxmin_def)

text \<open>
  C3, amended. For every trajectory in which no record's altitude exceeds the launch-clear
  threshold, as the code computes it from the elevation, the launcher length and the
  pitch, the run summarization raises an error (\<open>IndexError\<close>), and so does the extrema
  analysis (\<open>ValueError\<close>) whenever the site key has a registered evaluator.
\<close>

theorem no_launch_clear_raises:
  assumes reg: "LAUNCH_SITES landing_range_script = Some evaluator"
    and low: "\<forall>row \<in> set output_df.
                \<not> Altitude row > launch_clear_height math_sin output_info_df"
  shows "get_extrema_analysis LAUNCH_SITES geo math_sin output_info_df output_df
           landing_range_script
           = Inl ValueError
         \<and> summarize_output_info_df math_sin output_info_df output_df = Inl IndexError"
proof
  have "\<forall>row \<in> set (derive_columns output_df).
          \<not> Altitude row > launch_clear_height math_sin output_info_df"
    using low by (simp add: derive_columns_def Altitude_derive_row)
  then have empty:
    "filter (\<lambda>(i, row). Altitude row > launch_clear_height math_sin output_info_df)
       (labelled (derive_columns output_df)) = []"
    by (rule filter_labelled_empty)
  have "bind_err (idxmin s) (\<lambda>i. bind_err (idxmin (column Time [])) (g i)) = Inl ValueError"
    for s g
    using idxmin_cases [of s] by (auto simp: bind_err_def column_def idxmin_def)
  then show "get_extrema_analysis LAUNCH_SITES geo math_sin output_info_df output_df
               landing_range_script = Inl ValueError"
    using reg empty by (simp add: get_extrema_analysis_def Let_def)
  have "filter (\<lambda>row. Altitude row > launch_clear_height math_sin output_info_df) output_df
          = []"
    using low by (simp add: filter_empty_conv)
  then show "summarize_output_info_df math_sin output_info_df output_df = Inl IndexError"
    by (simp add: summarize_output_info_df_def Let_def)
qed

theorem no_launch_clear_raises_witness:
  "one_site ''noshiro_sea'' = Some (\<lambda>lat lon. lat + lon)
   \<and> list_all (\<lambda>row. \<not> Altitude row > launch_clear_height sin level_launcher) grounded_run
   \<and> get_extrema_analysis one_site grid_distance sin level_launcher grounded_run
         ''noshiro_sea''
       = Inl ValueError
   \<and> summarize_output_info_df sin level_launcher grounded_run = Inl IndexError"
proof -
  have reg: "one_site ''noshiro_sea'' = Some (\<lambda>lat lon. lat + lon)"
    by (simp add: one_site_def)
  show ?thesis
    using no_launch_clear_raises [of one_site "''noshiro_sea''" "\<lambda>lat lon. lat + lon"
        grounded_run sin level_launcher grid_distance] reg grounded_run_below_launch_clear
    by (simp add: list_all_iff)
qed

section \<open>Properties of the safety-zone evaluator\<close>

text \<open>
  C5. For every evaluator object, \<open>NoshiroSea\<close> among them, \<open>landing_range\<close> returns the
  geodesic distance between the query point, as (latitude, longitude), and the nearest
  point that the library finds on the target geometry, read back as (latitude,
  longitude): with the positive sign and the boundary as target when
  the point-in-polygon test says inside, with the negative sign and the polygon as target
  when it says outside. The nearest point of the polygon to a point that is not inside is
  the nearest point of its boundary, so the distance is the one to the boundary in both
  cases; and as a distance is never negative, the result is never negative inside and
  never positive outside.
\<close>

theorem landing_range_signed_geodesic_distance:
  "landing_range lib geo self lat lon
     = (if polygon_contains lib (self_polygon self) (lon, lat)
        then geo (lat, lon)
               (snd (nearest_points lib (Boundary_geom (self_polygon self)) (lon, lat)),
                fst (nearest_points lib (Boundary_geom (self_polygon self)) (lon, lat)))
        else - geo (lat, lon)
                 (snd (nearest_points lib (Polygon_geom (self_polygon self)) (lon, lat)),
                  fst (nearest_points lib (Polygon_geom (self_polygon self)) (lon, lat))))
   \<and> ((\<forall>p. \<not> polygon_contains lib (self_polygon self) p \<longrightarrow>
            nearest_points lib (Polygon_geom (self_polygon self)) p
              = nearest_points lib (Boundary_geom (self_polygon self)) p) \<longrightarrow>
        landing_range lib geo self lat lon
          = (if polygon_contains lib (self_polygon self) (lon, lat) then 1 else - 1)
            * geo (lat, lon)
                (snd (nearest_points lib (Boundary_geom (self_polygon self)) (lon, lat)),
                 fst (nearest_points lib (Boundary_geom (self_polygon self)) (lon, lat))))
   \<and> ((\<forall>a b. 0 \<le> geo a b) \<longrightarrow>
        (polygon_contains lib (self_polygon self) (lon, lat)
           \<longrightarrow> 0 \<le> landing_range lib geo self lat lon)
        \<and> (\<not> polygon_contains lib (self_polygon self) (lon, lat)
           \<longrightarrow> landing_range lib geo self lat lon \<le> 0))"
proof (intro conjI impI)
  show val: "landing_range lib geo self lat lon
     = (if polygon_contains lib (self_polygon self) (lon, lat)
        then geo (lat, lon)
               (snd (nearest_points lib (Boundary_geom (self_polygon self)) (lon, lat)),
                fst (nearest_points lib (Boundary_geom (self_polygon self)) (lon, lat)))
        else - geo (lat, lon)
                 (snd (nearest_points lib (Polygon_geom (self_polygon self)) (lon, lat)),
                  fst (nearest_points lib (Polygon_geom (self_polygon self)) (lon, lat))))"
    by (simp add: landing_range_def Let_def)
  {
    assume same: "\<forall>p. \<not> polygon_contains lib (self_polygon self) p \<longrightarrow>
            nearest_points lib (Polygon_geom (self_polygon self)) p
              = nearest_points lib (Boundary_geom (self_polygon self)) p"
    show "landing_range lib geo self lat lon
          = (if polygon_contains lib (self_polygon self) (lon, lat) then 1 else - 1)
            * geo (lat, lon)
                (snd (nearest_points lib (Boundary_geom (self_polygon self)) (lon, lat)),
                 fst (nearest_points lib (Boundary_geom (self_polygon self)) (lon, lat)))"
    proof (cases "polygon_contains lib (self_polygon self) (lon, lat)")
      case True
      then show ?thesis unfolding val by simp
    next
      case False
      then have "nearest_points lib (Polygon_geom (self_polygon self)) (lon, lat)
                   = nearest_points lib (Boundary_geom (self_polygon self)) (lon, lat)"
        using same by blast
      then show ?thesis unfolding val using False by simp
    qed
  }
  {
    assume nonneg: "\<forall>a b. 0 \<le> geo a b"
    {
      assume "polygon_contains lib (self_polygon self) (lon, lat)"
      then show "0 \<le> landing_range lib geo self lat lon"
        unfolding val using nonneg by simp
    }
    {
      assume "\<not> polygon_contains lib (self_polygon self) (lon, lat)"
      then show "landing_range lib geo self lat lon \<le> 0"
        unfolding val using nonneg by simp
    }
  }
qed

lemma square_library_outside:
  "\<forall>p. \<not> polygon_contains square_library (self_polygon unit_square) p \<longrightarrow>
       nearest_points square_library (Polygon_geom (self_polygon unit_square)) p
         = nearest_points square_library (Boundary_geom (self_polygon unit_square)) p"
  by (simp add: square_library_def square_nearest_def Let_def)

lemma grid_distance_nonneg: "\<forall>a b. 0 \<le> grid_distance a b"
  by (simp add: grid_distance_def)

theorem landing_range_signed_geodesic_distance_witness:
  "polygon_contains square_library (self_polygon unit_square) (1 / 4, 1 / 2)
   \<and> landing_range square_library grid_distance unit_square (1 / 2) (1 / 4) = 1 / 4
   \<and> \<not> polygon_contains square_library (self_polygon unit_square) (2, 2)
   \<and> landing_range square_library grid_distance unit_square 2 2 = - 2"
proof -
  have inside: "polygon_contains square_library (self_polygon unit_square) (1 / 4, 1 / 2)"
    by (simp add: square_library_def square_contains_def)
  have outside: "\<not> polygon_contains square_library (self_polygon unit_square) (2, 2)"
    by (simp add: square_library_def square_contains_def)
  have n1: "nearest_points square_library (Boundary_geom (self_polygon unit_square))
              (1 / 4, 1 / 2) = (0, 1 / 2)"
    by (simp add: square_library_def square_nearest_def square_contains_def Let_def)
  have n2: "nearest_points square_library (Boundary_geom (self_polygon unit_square))
              (2, 2) = (1, 1)"
    by (simp add: square_library_def square_nearest_def square_contains_def Let_def)
  have "landing_range square_library grid_distance unit_square (1 / 2) (1 / 4) = 1 / 4"
    using landing_range_signed_geodesic_distance
      [of square_library grid_distance unit_square "1 / 2" "1 / 4"]
      square_library_outside inside
    by (simp add: n1 grid_distance_def)
  moreover have "landing_range square_library grid_distance unit_square 2 2 = - 2"
    using landing_range_signed_geodesic_distance
      [of square_library grid_distance unit_square 2 2]
      square_library_outside outside
    by (simp add: n2 grid_distance_def)
  ultimately show ?thesis using inside outside by blast
qed

section \<open>Properties of the geometry generator\<close>

text \<open>
  C9. On an empty list of points \<open>add_line\<close> raises \<open>IndexError\<close>. On every other list it
  completes, and the line it adds is rendered relative to the ground exactly when the
  first point has three components, and clamped to the ground otherwise.
\<close>

theorem add_line_altitude_mode:
  "fst (add_line [] name rgb width k) = Some IndexError
   \<and> (points \<noteq> [] \<longrightarrow>
        add_line points name rgb width k
          = (None, k @ [LineString name points rgb width
                          (Some (if length (hd points) = 3 then relativetoground
                                 else clamptoground))]))"
  by (cases points) (simp_all add: add_line_def)

theorem add_line_altitude_mode_witness:
  "[ [1, 2, 3], [4, 5, 6::real] ] \<noteq> []
   \<and> add_line [ [1, 2, 3], [4, 5, 6] ] ''flight_path'' (255, 0, 0) 3 []
       = (None, [LineString ''flight_path'' [ [1, 2, 3], [4, 5, 6] ] (255, 0, 0) 3
                   (Some relativetoground)])
   \<and> add_line [ [1, 2], [4, 5] ] ''flight_path'' (0, 255, 0) 3 []
       = (None, [LineString ''flight_path'' [ [1, 2], [4, 5] ] (0, 255, 0) 3
                   (Some clamptoground)])"
  using add_line_altitude_mode [of "''flight_path''" "(255, 0, 0)" 3 "[]"
      "[ [1, 2, 3], [4, 5, 6] ]"]
    add_line_altitude_mode [of "''flight_path''" "(0, 255, 0)" 3 "[]" "[ [1, 2], [4, 5] ]"]
  by simp

lemma fold_add_point:
  "fold (\<lambda>point. add_point point name (Some c)) points k
     = k @ map (\<lambda>p. Point name p (Icon_color c)) points"
  by (induction points arbitrary: k) (simp_all add: add_point_def)

lemma grouped_step_append:
  "grouped_step True cg g k = k @ grouped_step True cg g []"
  by (cases g)
    (simp add: grouped_step_def Let_def fold_add_point generate_groundpoint_polygon_def)

lemma fold_grouped_step:
  "fold (grouped_step True cg) gs k = k @ concat (map (\<lambda>g. grouped_step True cg g []) gs)"
proof (induction gs arbitrary: k)
  case Nil
  then show ?case by simp
next
  case (Cons g gs)
  have "fold (grouped_step True cg) (g # gs) k
          = fold (grouped_step True cg) gs (k @ grouped_step True cg g [])"
    using grouped_step_append [of cg g k] by simp
  then show ?case by (simp add: Cons.IH)
qed

lemma grouped_step_few:
  assumes "length group_df \<le> 3"
  shows "\<exists>c. grouped_step True cg (i, group_key, group_df) []
           = map (\<lambda>p. Point [] p (Icon_color c)) (group_points group_df)"
proof -
  have "grouped_step True cg (i, group_key, group_df) []
          = map (\<lambda>p. Point [] p (Icon_color (if cg \<noteq> [] then cg ! i else (255, 0, 0))))
              (group_points group_df)"
    using assms by (simp add: grouped_step_def Let_def fold_add_point group_points_def)
  then show ?thesis by blast
qed

lemma grouped_step_many:
  assumes "3 < length group_df"
  shows "\<exists>ring c w. grouped_step True cg (i, group_key, group_df) []
             = [Polygon group_key ring clamptoground c w]
           \<and> ring \<noteq> [] \<and> hd ring = last ring
           \<and> mset (butlast ring) = mset (group_points group_df)"
proof -
  define pts where "pts = group_points group_df"
  define srt where "srt = sort_key (angle_from_center (sum_list (map fst pts) / real (length pts))
      (sum_list (map snd pts) / real (length pts))) pts"
  have len: "3 < length pts" using assms by (simp add: pts_def group_points_def)
  then have ne: "srt \<noteq> []"
    by (metis length_sort list.size(3) not_less0 srt_def)
  have ms: "mset srt = mset pts" by (simp add: srt_def)
  have "grouped_step True cg (i, group_key, group_df) []
          = [Polygon group_key (srt @ [hd srt]) clamptoground
               (if cg \<noteq> [] then cg ! i else (255, 0, 0)) DEFAULT_LINE_WIDTH]"
    using len ne
    by (simp add: grouped_step_def Let_def generate_groundpoint_polygon_def
        pts_def [symmetric] srt_def [symmetric])
  moreover have "hd (srt @ [hd srt]) = last (srt @ [hd srt])" using ne by simp
  moreover have "mset (butlast (srt @ [hd srt])) = mset pts" using ms by (simp add: butlast_append)
  ultimately show ?thesis unfolding pts_def by blast
qed

text \<open>
  C7. With point output enabled, the features added to the document are the features of
  the groups one after the other. A group of at most three landed points contributes one
  point per landed point, at that point, and no polygon. A group of more than three
  contributes exactly one polygon and no point; the ring of the polygon is closed (it ends
  where it starts) and runs through the landed points of the group.
\<close>

theorem grouped_output_points_or_polygon:
  "\<exists>parts. length parts = length grouped_df
     \<and> generate_grouped_points_polygons grouped_df True k = k @ concat parts
     \<and> (\<forall>i < length grouped_df.
          (length (snd (grouped_df ! i)) \<le> 3 \<longrightarrow>
             (\<exists>c. parts ! i = map (\<lambda>p. Point [] p (Icon_color c))
                                (group_points (snd (grouped_df ! i)))))
          \<and> (3 < length (snd (grouped_df ! i)) \<longrightarrow>
             (\<exists>ring c w. parts ! i = [Polygon (fst (grouped_df ! i)) ring clamptoground c w]
                 \<and> ring \<noteq> [] \<and> hd ring = last ring
                 \<and> mset (butlast ring) = mset (group_points (snd (grouped_df ! i))))))"
proof -
  define n where "n = length grouped_df"
  define cg where "cg = (if n > 0 then create_color_gradient (248, 112, 128) (247, 93, 139) n else [])"
  define parts where "parts = map (\<lambda>g. grouped_step True cg g []) (zip [0 ..< n] grouped_df)"
  have len: "length parts = length grouped_df" by (simp add: parts_def n_def)
  have out: "generate_grouped_points_polygons grouped_df True k = k @ concat parts"
    by (simp add: generate_grouped_points_polygons_def Let_def fold_grouped_step parts_def
        cg_def n_def)
  have nth: "parts ! i = grouped_step True cg (i, group_key, group_df) []"
    if "i < length grouped_df" "grouped_df ! i = (group_key, group_df)" for i group_key group_df
    using that by (simp add: parts_def n_def)
  have per: "\<forall>i < length grouped_df.
          (length (snd (grouped_df ! i)) \<le> 3 \<longrightarrow>
             (\<exists>c. parts ! i = map (\<lambda>p. Point [] p (Icon_color c))
                                (group_points (snd (grouped_df ! i)))))
          \<and> (3 < length (snd (grouped_df ! i)) \<longrightarrow>
             (\<exists>ring c w. parts ! i = [Polygon (fst (grouped_df ! i)) ring clamptoground c w]
                 \<and> ring \<noteq> [] \<and> hd ring = last ring
                 \<and> mset (butlast ring) = mset (group_points (snd (grouped_df ! i)))))"
  proof (intro allI impI conjI)
    fix i assume i: "i < length grouped_df" and few: "length (snd (grouped_df ! i)) \<le> 3"
    obtain group_key group_df where g: "grouped_df ! i = (group_key, group_df)"
      by (cases "grouped_df ! i")
    then have "length group_df \<le> 3" using few by simp
    from grouped_step_few [OF this, of cg i group_key]
    show "\<exists>c. parts ! i = map (\<lambda>p. Point [] p (Icon_color c))
                                (group_points (snd (grouped_df ! i)))"
      using nth [OF i g] g by simp
  next
    fix i assume i: "i < length grouped_df" and many: "3 < length (snd (grouped_df ! i))"
    obtain group_key group_df where g: "grouped_df ! i = (group_key, group_df)"
      by (cases "grouped_df ! i")
    then have "3 < length group_df" using many by simp
    from grouped_step_many [OF this, of cg i group_key]
    show "\<exists>ring c w. parts ! i = [Polygon (fst (grouped_df ! i)) ring clamptoground c w]
                 \<and> ring \<noteq> [] \<and> hd ring = last ring
                 \<and> mset (butlast ring) = mset (group_points (snd (grouped_df ! i)))"
      using nth [OF i g] g by simp
  qed
  show ?thesis
    by (intro exI [of _ parts] conjI len out per)
qed

theorem grouped_output_points_or_polygon_witness:
  "\<exists>parts. length parts = 2
     \<and> generate_grouped_points_polygons two_groups True [] = concat parts
     \<and> (\<exists>c. parts ! 0 = map (\<lambda>p. Point [] p (Icon_color c))
                           [(139.97, 40.24), (139.98, 40.25), (139.97, 40.26)])
     \<and> (\<exists>ring c w. parts ! 1 = [Polygon ''90'' ring clamptoground c w]
           \<and> ring \<noteq> [] \<and> hd ring = last ring
           \<and> mset (butlast ring)
               = mset [(139.97, 40.24), (139.98, 40.25), (139.97, 40.26), (139.96, 40.25)])"
proof -
  obtain parts where len: "length parts = length two_groups"
    and out: "generate_grouped_points_polygons two_groups True [] = [] @ concat parts"
    and per: "\<forall>i < length two_groups.
          (length (snd (two_groups ! i)) \<le> 3 \<longrightarrow>
             (\<exists>c. parts ! i = map (\<lambda>p. Point [] p (Icon_color c))
                                (group_points (snd (two_groups ! i)))))
          \<and> (3 < length (snd (two_groups ! i)) \<longrightarrow>
             (\<exists>ring c w. parts ! i = [Polygon (fst (two_groups ! i)) ring clamptoground c w]
                 \<and> ring \<noteq> [] \<and> hd ring = last ring
                 \<and> mset (butlast ring) = mset (group_points (snd (two_groups ! i)))))"
    using grouped_output_points_or_polygon [of two_groups "[]"] by blast
  have l2: "length two_groups = 2" by (simp add: two_groups_def)
  have g0: "two_groups ! 0
              = (''0'', [landed_at 40.24 139.97, landed_at 40.25 139.98, landed_at 40.26 139.97])"
    by (simp add: two_groups_def)
  have g1: "two_groups ! Suc 0
              = (''90'', [landed_at 40.24 139.97, landed_at 40.25 139.98, landed_at 40.26 139.97,
                landed_at 40.25 139.96])"
    by (simp add: two_groups_def)
  have p0: "\<exists>c. parts ! 0 = map (\<lambda>p. Point [] p (Icon_color c))
                           [(139.97, 40.24), (139.98, 40.25), (139.97, 40.26)]"
    using per [rule_format, of 0] by (simp add: l2 g0 group_points_def landed_at_def)
  have p1: "\<exists>ring c w. parts ! Suc 0 = [Polygon ''90'' ring clamptoground c w]
           \<and> ring \<noteq> [] \<and> hd ring = last ring
           \<and> mset (butlast ring)
               = mset [(139.97, 40.24), (139.98, 40.25), (139.97, 40.26), (139.96, 40.25)]"
    using per [rule_format, of "Suc 0"] by (simp add: l2 g1 group_points_def landed_at_def)
  show ?thesis
    using len out p0 p1 by (intro exI [of _ parts]) (simp add: l2)
qed

section \<open>Properties of the merge\<close>

lemma find_upt_first:
  assumes "i < n" "P i" "\<forall>j < i. \<not> P j"
  shows "find P [0 ..< n] = Some i"
proof -
  have "\<exists>k < length [0 ..< n]. P ([0 ..< n] ! k) \<and> i = [0 ..< n] ! k
          \<and> (\<forall>j < k. \<not> P ([0 ..< n] ! j))"
    using assms by (intro exI [of _ i]) simp
  then show ?thesis by (simp only: find_Some_iff)
qed

lemma find_rev_upt_last:
  assumes "i < n" "P i" "\<forall>j. i < j \<and> j < n \<longrightarrow> \<not> P j"
  shows "find P (rev [0 ..< n]) = Some i"
proof -
  let ?xs = "rev [0 ..< n]"
  have nth: "?xs ! k = n - Suc k" if "k < n" for k
    using that by (simp add: rev_nth)
  have "n - Suc i < length ?xs" using assms(1) by simp
  moreover have "P (?xs ! (n - Suc i))" using assms(1,2) by (simp add: nth)
  moreover have "i = ?xs ! (n - Suc i)" using assms(1) by (simp add: nth)
  moreover have "\<forall>j < n - Suc i. \<not> P (?xs ! j)"
  proof (intro allI impI)
    fix j assume j: "j < n - Suc i"
    then have "i < n - Suc j" "n - Suc j < n" by arith+
    then have "\<not> P (n - Suc j)" using assms(3) by blast
    then show "\<not> P (?xs ! j)" using j by (simp add: nth)
  qed
  ultimately have "\<exists>k < length ?xs. P (?xs ! k) \<and> i = ?xs ! k \<and> (\<forall>j < k. \<not> P (?xs ! j))"
    by blast
  then show ?thesis by (simp only: find_Some_iff)
qed

lemma occurs_at_append: "occurs_at pat (xs @ pat @ ys) (length xs)"
  by (simp add: occurs_at_def)

lemma greedy_until_last:
  assumes "list_all (\<lambda>p. \<not> occurs_at pat (inner @ pat @ footer) p)
             [Suc (length inner) ..< Suc (length (inner @ pat @ footer))]"
  shows "greedy_until pat (inner @ pat @ footer) = Some (length inner)"
  unfolding greedy_until_def
proof (rule find_rev_upt_last)
  show "length inner < Suc (length (inner @ pat @ footer))" by simp
  show "occurs_at pat (inner @ pat @ footer) (length inner)" by (rule occurs_at_append)
  show "\<forall>j. length inner < j \<and> j < Suc (length (inner @ pat @ footer))
          \<longrightarrow> \<not> occurs_at pat (inner @ pat @ footer) j"
  proof (intro allI impI)
    fix j assume j: "length inner < j \<and> j < Suc (length (inner @ pat @ footer))"
    then have "j \<in> set [Suc (length inner) ..< Suc (length (inner @ pat @ footer))]"
      by (simp only: set_upt atLeastLessThan_iff Suc_le_eq)
    then show "\<not> occurs_at pat (inner @ pat @ footer) j"
      using assms unfolding list_all_iff by blast
  qed
qed

lemma takeWhile_until:
  "g \<notin> set attrs \<Longrightarrow> takeWhile (\<lambda>c. c \<noteq> g) (attrs @ g # t) = attrs"
  by (induction attrs) auto

lemma document_split:
  fixes header opn attrs inner cls footer :: string
  shows "drop (length header + length opn)
           (header @ opn @ attrs @ [g] @ inner @ cls @ footer)
         = attrs @ g # inner @ cls @ footer"
    and "drop (length header + length opn + length attrs + 1)
           (header @ opn @ attrs @ [g] @ inner @ cls @ footer)
         = inner @ cls @ footer"
    and "take (length header + length opn + length attrs + 1)
           (header @ opn @ attrs @ [g] @ inner @ cls @ footer)
         = header @ opn @ attrs @ [g]"
    and "take (length inner) (drop (length header + length opn + length attrs + 1)
           (header @ opn @ attrs @ [g] @ inner @ cls @ footer))
         = inner"
    and "drop (length header + length opn + length attrs + 1 + length inner)
           (header @ opn @ attrs @ [g] @ inner @ cls @ footer)
         = cls @ footer"
  by simp_all

lemma length_open_tag: "length ''<Document'' = 9"
  by simp

lemmas Document_split =
  document_split [where opn = "''<Document''" and g = "CHR ''>''" and cls = "''</Document>''",
    unfolded length_open_tag]

lemma top_level_DocumentD:
  assumes "top_level_Document s header attrs inner footer"
  shows "s = header @ ''<Document'' @ attrs @ ''>'' @ inner @ ''</Document>'' @ footer"
    and "list_all (\<lambda>j. \<not> occurs_at ''<Document'' s j) [0 ..< length header]"
    and "CHR ''>'' \<notin> set attrs"
    and "list_all (\<lambda>p. \<not> occurs_at ''</Document>'' (inner @ ''</Document>'' @ footer) p)
           [Suc (length inner) ..< Suc (length (inner @ ''</Document>'' @ footer))]"
  using assms unfolding top_level_Document_def by blast+

lemma match_document_at_tag:
  assumes "top_level_Document s header attrs inner footer"
  shows "match_document_at s (length header)
           = Some (length header + 9 + length attrs + 1,
                   length header + 9 + length attrs + 1 + length inner)"
proof -
  let ?t = "inner @ ''</Document>'' @ footer"
  have s: "s = header @ ''<Document'' @ attrs @ ''>'' @ ?t"
    by (rule top_level_DocumentD(1) [OF assms])
  have occ: "occurs_at ''<Document'' s (length header)"
    unfolding s by (rule occurs_at_append)
  have r: "drop (length header + 9) s = attrs @ CHR ''>'' # ?t"
    unfolding s by (rule Document_split(1))
  have tw: "takeWhile (\<lambda>c. c \<noteq> CHR ''>'') (attrs @ CHR ''>'' # ?t) = attrs"
    using top_level_DocumentD(3) [OF assms] by (rule takeWhile_until)
  have d: "drop (length header + 9 + length attrs + 1) s = ?t"
    unfolding s by (rule Document_split(2))
  have g: "greedy_until ''</Document>'' ?t = Some (length inner)"
    by (rule greedy_until_last [OF top_level_DocumentD(4) [OF assms] ])
  show ?thesis
    unfolding match_document_at_def Let_def r tw d g using occ by simp
qed

lemma re_search_document_tag:
  assumes "top_level_Document s header attrs inner footer"
  shows "re_search_document s
           = Some (length header + 9 + length attrs + 1,
                   length header + 9 + length attrs + 1 + length inner)"
proof -
  have len: "length header < Suc (length s)"
    unfolding top_level_DocumentD(1) [OF assms] by simp
  have before: "\<forall>j < length header. \<not> match_document_at s j \<noteq> None"
    using top_level_DocumentD(2) [OF assms] by (simp add: list_all_iff match_document_at_def)
  have here: "match_document_at s (length header) \<noteq> None"
    using match_document_at_tag [OF assms] by simp
  have "find (\<lambda>i. match_document_at s i \<noteq> None) [0 ..< Suc (length s)] = Some (length header)"
    using len here before by (rule find_upt_first)
  then show ?thesis
    by (simp add: re_search_document_def match_document_at_tag [OF assms])
qed

text \<open>
  C8. When both documents contain a top-level Document element, the merged document is
  the header of the first document with its opening tag, the inner content of the first
  document, immediately followed by the inner content of the second one, unchanged and
  whole, and then the closing tag and the footer of the first document.
\<close>

theorem merge_kmz_to_kml_concatenates_documents:
  assumes "top_level_Document existing_content header1 attrs1 inner1 footer1"
    and "top_level_Document kmz_content header2 attrs2 inner2 footer2"
  shows "merge_kmz_to_kml existing_content kmz_content
           = header1 @ ''<Document'' @ attrs1 @ ''>'' @ inner1 @ inner2 @ ''</Document>'' @ footer1"
proof -
  have s1: "existing_content
              = header1 @ ''<Document'' @ attrs1 @ ''>'' @ inner1 @ ''</Document>'' @ footer1"
    by (rule top_level_DocumentD(1) [OF assms(1)])
  have s2: "kmz_content
              = header2 @ ''<Document'' @ attrs2 @ ''>'' @ inner2 @ ''</Document>'' @ footer2"
    by (rule top_level_DocumentD(1) [OF assms(2)])
  have hd1: "take (length header1 + 9 + length attrs1 + 1) existing_content
               = header1 @ ''<Document'' @ attrs1 @ ''>''"
    unfolding s1 by (rule Document_split(3))
  have in1: "take (length inner1) (drop (length header1 + 9 + length attrs1 + 1) existing_content)
               = inner1"
    unfolding s1 by (rule Document_split(4))
  have in2: "take (length inner2) (drop (length header2 + 9 + length attrs2 + 1) kmz_content)
               = inner2"
    unfolding s2 by (rule Document_split(4))
  have ft1: "drop (length header1 + 9 + length attrs1 + 1 + length inner1) existing_content
               = ''</Document>'' @ footer1"
    unfolding s1 by (rule Document_split(5))
  have "merge_kmz_to_kml existing_content kmz_content
          = take (length header1 + 9 + length attrs1 + 1) existing_content
            @ take (length header1 + 9 + length attrs1 + 1 + length inner1
                    - (length header1 + 9 + length attrs1 + 1))
                (drop (length header1 + 9 + length attrs1 + 1) existing_content)
            @ take (length header2 + 9 + length attrs2 + 1 + length inner2
                    - (length header2 + 9 + length attrs2 + 1))
                (drop (length header2 + 9 + length attrs2 + 1) kmz_content)
            @ drop (length header1 + 9 + length attrs1 + 1 + length inner1) existing_content"
    by (simp only: merge_kmz_to_kml_def re_search_document_tag [OF assms(1)]
        re_search_document_tag [OF assms(2)] Let_def prod.case option.case)
  also have "\<dots> = (header1 @ ''<Document'' @ attrs1 @ ''>'') @ inner1 @ inner2
                      @ ''</Document>'' @ footer1"
    by (simp only: add_diff_cancel_left' hd1 in1 in2 ft1)
  finally show ?thesis by (simp only: append_assoc)
qed

theorem merge_kmz_to_kml_concatenates_documents_witness:
  "top_level_Document flight_path_kml ''<kml>'' '' id=p'' ''<A/>'' ''</kml>''
   \<and> top_level_Document footprint_kml ''<?xml?><kml>'' [] ''<B/><B/>'' ''</kml>''
   \<and> merge_kmz_to_kml flight_path_kml footprint_kml
       = ''<kml><Document id=p><A/><B/><B/></Document></kml>''"
proof -
  have 1: "top_level_Document flight_path_kml ''<kml>'' '' id=p'' ''<A/>'' ''</kml>''"
    by code_simp
  have 2: "top_level_Document footprint_kml ''<?xml?><kml>'' [] ''<B/><B/>'' ''</kml>''"
    by code_simp
  show ?thesis using merge_kmz_to_kml_concatenates_documents [OF 1 2] 1 2 by simp
qed

end
